theory Spec2Isabelle
  imports Main
begin

section \<open>Targets and the target set (build2/target.cxx)\<close>

subsection \<open>Data\<close>

text \<open>
  \<open>target_state\<close>, in the order of the table \<open>target_state_\<close> (target.cxx:32).
\<close>

datatype target_state = Unknown | Unchanged | Postponed | Changed | Failed | Group

text \<open>
  A recipe is a \<open>std::function\<close>: it is empty, or it holds a plain pointer to a
  \<open>recipe_function\<close> (what \<open>recipe_.target<recipe_function*> ()\<close> finds), or it
  holds some other callable. The three recipe functions the file names are
  \<open>noop_action\<close>, \<open>default_action\<close> and \<open>group_action\<close>; build/rule.cxx adds the
  \<open>perform_update\<close> and \<open>perform_clean\<close> of its rules; every other function is
  numbered.
\<close>

datatype recipe_function =
  noop_action | default_action | group_action |
  path_rule_perform_update_fn | fsdir_rule_perform_update_fn | fsdir_rule_perform_clean_fn |
  other_action nat

datatype recipe_type = Empty | Function_pointer recipe_function | Callable nat

definition empty_recipe :: recipe_type where
  "empty_recipe = Empty"

definition noop_recipe :: recipe_type where
  "noop_recipe = Function_pointer noop_action"

definition default_recipe :: recipe_type where
  "default_recipe = Function_pointer default_action"

definition group_recipe :: recipe_type where
  "group_recipe = Function_pointer group_action"

type_synonym dir_path = string

text \<open>
  A target type (the static objects at target.cxx:437-601): its name, its base and its
  factory, a function pointer that is null for the three abstract types. The factories
  that the file defines are \<open>file_factory\<close> and \<open>man_factory\<close>; \<open>target_factory\<close>
  is the one of the header. A pointer to a target type is the target type.
\<close>

datatype factory = target_factory | file_factory | man_factory

datatype target_type =
  Target_type (tt_name: string) (tt_base: "target_type option") (tt_factory: "factory option")

definition target_static_type :: target_type where
  "target_static_type = Target_type ''target'' None None"

definition mtime_target_static_type :: target_type where
  "mtime_target_static_type = Target_type ''mtime_target'' (Some target_static_type) None"

definition path_target_static_type :: target_type where
  "path_target_static_type = Target_type ''path_target'' (Some mtime_target_static_type) None"

definition file_static_type :: target_type where
  "file_static_type = Target_type ''file'' (Some path_target_static_type) (Some file_factory)"

definition alias_static_type :: target_type where
  "alias_static_type = Target_type ''alias'' (Some target_static_type) (Some target_factory)"

definition dir_static_type :: target_type where
  "dir_static_type = Target_type ''dir'' (Some alias_static_type) (Some target_factory)"

definition fsdir_static_type :: target_type where
  "fsdir_static_type = Target_type ''fsdir'' (Some target_static_type) (Some target_factory)"

definition buildfile_static_type :: target_type where
  "buildfile_static_type = Target_type ''buildfile'' (Some file_static_type) (Some file_factory)"

definition doc_static_type :: target_type where
  "doc_static_type = Target_type ''doc'' (Some file_static_type) (Some file_factory)"

definition man_static_type :: target_type where
  "man_static_type = Target_type ''man'' (Some doc_static_type) (Some man_factory)"

definition man1_static_type :: target_type where
  "man1_static_type = Target_type ''man1'' (Some man_static_type) (Some file_factory)"

text \<open>\<open>target_type::is_a\<close> (target.cxx:20-28) walks the chain of bases.\<close>

fun is_a :: "target_type \<Rightarrow> target_type \<Rightarrow> bool" where
  "is_a (Target_type n b f) tt =
     (Target_type n b f = tt \<or> (case b of None \<Rightarrow> False | Some p \<Rightarrow> is_a p tt))"

text \<open>
  The members of \<open>target\<close> that target.cxx reads and writes. The extension is a
  pointer to a pooled string: \<open>None\<close> is the null pointer (unspecified), \<open>Some ''''\<close>
  is "no extension". The member \<open>recipe_\<close> is the field \<open>the_recipe\<close>. The type of
  actions is a parameter: \<open>action\<close> and its comparisons are declared in a header that
  is not part of the sources.
\<close>

record 'a target =
  type :: target_type
  dir :: dir_path
  out :: dir_path
  name :: string
  ext :: "string option"
  action :: 'a
  the_recipe :: recipe_type
  raw_state :: target_state
  dependents :: nat

text \<open>
  The failures: a failed \<open>assert\<close>, a \<open>dynamic_cast\<close> to a reference that throws, the
  use of a null pointer, the diagnostics that the sources issue with \<open>fail\<close>, a
  recursion that was not given enough steps, and, numbered, whatever a function that is
  a parameter here fails with.
\<close>

datatype error =
  Assertion_failed
| Man_target_must_include_extension string
| Bad_cast
| No_recipe_prerequisite_ahead nat
| No_recipe_prerequisite_updated nat
| Unable_to_create_directory string
| Null_dereference
| Unable_to_open string
| New_out_root_mismatch string string
| New_src_root_mismatch string string
| Bootstrapped_src_root_mismatch string string
| Project_name_expected
| Invalid_config_value string
| Unable_to_find_out_root string
| Unable_to_determine_src_root string
| Out_of_fuel
| Unable_to_read string
| Unable_to_write string
| Unexpectedly_writes string
| Output_mismatch string string
| Unable_to_compare
| Cleanup_directory_not_empty string
| Cleanup_directory_not_exist string
| Cleanup_file_not_exist string
| Other_failure nat

subsection \<open>target::recipe\<close>

text \<open>
  \<open>target::recipe (a, r)\<close> (target.cxx:51-85). \<open>gt\<close> and \<open>eq\<close> are the operators
  \<open>>\<close> and \<open>==\<close> of \<open>action\<close>, taken as parameters. A failed \<open>assert\<close> is the
  error \<open>Assertion_failed\<close>; otherwise the updated target is returned.
\<close>

definition recipe ::
  "('a \<Rightarrow> 'a \<Rightarrow> bool) \<Rightarrow> ('a \<Rightarrow> 'a \<Rightarrow> bool) \<Rightarrow> 'a \<Rightarrow> recipe_type \<Rightarrow> 'a target
    \<Rightarrow> error + 'a target" where
  "recipe gt eq a r t =
     (if \<not> (gt a (action t) \<or> the_recipe t = Empty) then Inl Assertion_failed
      else
        let override = (eq a (action t) \<and> the_recipe t \<noteq> Empty) in
        if override \<and> the_recipe t \<noteq> Function_pointer noop_action then Inl Assertion_failed
        else
          Inr (t\<lparr>action := a,
                 the_recipe := r,
                 raw_state := (if r = Function_pointer noop_action then Unchanged else Unknown),
                 dependents := (if override then dependents t else 0)\<rparr>))"

subsection \<open>The target set\<close>

text \<open>
  \<open>target_key\<close>: type, dir, out, name and extension (target.cxx:220, 228).
\<close>

record target_key =
  key_type :: target_type
  key_dir :: dir_path
  key_out :: dir_path
  key_name :: string
  key_ext :: "string option"

text \<open>
  The key under which a target is stored is made of pointers to the target's own members
  (\<open>target_key {&tt, &pt->dir, &pt->out, &pt->name, pt->ext}\<close>, target.cxx:228), so
  it is read off the target.
\<close>

definition key :: "'a target \<Rightarrow> target_key" where
  "key t = \<lparr>key_type = type t, key_dir = dir t, key_out = out t, key_name = name t,
             key_ext = ext t\<rparr>"

text \<open>
  Modelled from the spec: the comparison of two \<open>target_key\<close>s, which the header
  build2/target declares and the sources do not contain. The spec gives identity of the
  type and of the paths and equality of the name; how two extensions compare is left as
  the parameter \<open>ext_eq\<close>, because \<open>target_set::find\<close> itself provides for a found
  target whose extension differs from the key's ("assuming target ... is the same as
  the one with unspecified extension"). The first argument is the extension of the key
  that is looked up, the second the extension of the stored key.
\<close>

definition target_key_eq ::
  "(string option \<Rightarrow> string option \<Rightarrow> bool) \<Rightarrow> target_key \<Rightarrow> target_key \<Rightarrow> bool" where
  "target_key_eq ext_eq x y \<longleftrightarrow>
     key_type x = key_type y \<and> key_dir x = key_dir y \<and> key_out x = key_out y \<and>
     key_name x = key_name y \<and> ext_eq (key_ext x) (key_ext y)"

text \<open>
  The set owns its targets and never removes one: \<open>map_\<close> is the list of the targets
  in the order of their insertion, and a reference to a target (\<open>target&\<close>, an
  iterator) is the target's position in that list. \<open>map_find\<close> is \<open>map_.find (k)\<close>:
  the position of the first target whose key compares equal to \<open>k\<close>, \<open>None\<close> for
  \<open>end ()\<close>.
\<close>

type_synonym 'a target_set = "'a target list"

fun map_find ::
  "(string option \<Rightarrow> string option \<Rightarrow> bool) \<Rightarrow> target_key \<Rightarrow> 'a target_set \<Rightarrow> nat option" where
  "map_find ext_eq k [] = None"
| "map_find ext_eq k (t # ts) =
     (if target_key_eq ext_eq k (key t) then Some 0
      else map_option Suc (map_find ext_eq k ts))"

text \<open>
  \<open>target_set::find\<close> (target.cxx:179-210): the lookup, and the update of the found
  target's extension. The trace output is left out. The function is \<open>const\<close> but
  writes \<open>t.ext\<close> through the stored pointer, so the set is returned too.
\<close>

definition target_set_find ::
  "(string option \<Rightarrow> string option \<Rightarrow> bool) \<Rightarrow> target_key \<Rightarrow> 'a target_set
    \<Rightarrow> nat option \<times> 'a target_set" where
  "target_set_find ext_eq k s =
     (case map_find ext_eq k s of
        None \<Rightarrow> (None, s)
      | Some i \<Rightarrow>
          (let t = s ! i; e = key_ext k in
           if ext t \<noteq> e then
             (if e \<noteq> None then (Some i, s[i := t\<lparr>ext := e\<rparr>]) else (Some i, s))
           else (Some i, s)))"

text \<open>
  Modelled from the spec: the target that the constructor leaves (header build2/target):
  the five components as given, no recipe, the state \<open>unknown\<close> and no dependents;
  \<open>a0\<close> is the action that a new target has.
\<close>

definition new_target ::
  "'a \<Rightarrow> target_type \<Rightarrow> dir_path \<Rightarrow> dir_path \<Rightarrow> string \<Rightarrow> string option \<Rightarrow> 'a target" where
  "new_target a0 tt d ou n e =
     \<lparr>type = tt, dir = d, out = ou, name = n, ext = e, action = a0, the_recipe = Empty,
      raw_state = Unknown, dependents = 0\<rparr>"

text \<open>
  The factories: \<open>file_factory\<close> (target.cxx:470-485) turns an unspecified extension
  into the empty one; \<open>man_factory\<close> (target.cxx:571-581) fails without an extension;
  \<open>target_factory\<close> (modelled from the spec, it is the header's) passes the components
  on.
\<close>

fun call_factory ::
  "factory \<Rightarrow> 'a \<Rightarrow> target_type \<Rightarrow> dir_path \<Rightarrow> dir_path \<Rightarrow> string \<Rightarrow> string option
    \<Rightarrow> error + 'a target" where
  "call_factory target_factory a0 tt d ou n e = Inr (new_target a0 tt d ou n e)"
| "call_factory file_factory a0 tt d ou n e =
     Inr (new_target a0 tt d ou n (if e \<noteq> None then e else Some []))"
| "call_factory man_factory a0 tt d ou n e =
     (if e = None then Inl (Man_target_must_include_extension n)
      else Inr (new_target a0 tt d ou n e))"

text \<open>
  \<open>target_set::insert\<close> (target.cxx:212-233). The result is the reference to the
  target, the flag and the set. Calling the null factory of an abstract type is a
  failure.
\<close>

definition target_set_insert ::
  "(string option \<Rightarrow> string option \<Rightarrow> bool) \<Rightarrow> 'a \<Rightarrow>
   target_type \<Rightarrow> dir_path \<Rightarrow> dir_path \<Rightarrow> string \<Rightarrow> string option \<Rightarrow> 'a target_set
    \<Rightarrow> error + nat \<times> bool \<times> 'a target_set" where
  "target_set_insert ext_eq a0 tt d ou n e s =
     (case target_set_find ext_eq
             \<lparr>key_type = tt, key_dir = d, key_out = ou, key_name = n, key_ext = e\<rparr> s of
        (Some i, s') \<Rightarrow> Inr (i, False, s')
      | (None, s') \<Rightarrow>
          (case tt_factory tt of
             None \<Rightarrow> Inl Null_dereference
           | Some f \<Rightarrow>
               (case call_factory f a0 tt d ou n e of
                  Inl err \<Rightarrow> Inl err
                | Inr pt \<Rightarrow> Inr (length s', True, s' @ [pt]))))"




section \<open>Built-in rules (build/rule.cxx)\<close>

subsection \<open>Actions, timestamps, targets and the world\<close>

text \<open>
  Modelled from the spec: \<open>action\<close> and the ids, which the header build/operation
  declares and the sources do not contain. For these rules an action is a meta-operation
  id and an operation id. An id is the position at which \<open>create_root\<close> enters the name
  in the table of the root scope (file.cxx:83-87): \<open>perform\<close> is the first
  meta-operation; \<open>default\<close>, \<open>update\<close> and \<open>clean\<close> are the first three operations;
  0 stands for no operation (operation.cxx:19).
\<close>

record action =
  meta_operation :: nat
  operation :: nat

definition perform_id :: nat where "perform_id = 1"
definition default_id :: nat where "default_id = 1"
definition update_id :: nat where "update_id = 2"
definition clean_id :: nat where "clean_id = 3"

definition perform_update_id :: action where
  "perform_update_id = \<lparr>meta_operation = perform_id, operation = update_id\<rparr>"

definition perform_clean_id :: action where
  "perform_clean_id = \<lparr>meta_operation = perform_id, operation = clean_id\<rparr>"

text \<open>
  Modelled from the spec: timestamps and \<open>mtime ()\<close>, which the headers build/timestamp
  and build/target declare. A timestamp is unknown, the mark of a file that does not
  exist, or a point in time; they are ordered in that sequence.
\<close>

datatype timestamp = timestamp_unknown | timestamp_nonexistent | Time nat

fun timestamp_less :: "timestamp \<Rightarrow> timestamp \<Rightarrow> bool" where
  "timestamp_less (Time m) (Time n) = (m < n)"
| "timestamp_less (Time m) _ = False"
| "timestamp_less timestamp_nonexistent (Time n) = True"
| "timestamp_less timestamp_nonexistent _ = False"
| "timestamp_less timestamp_unknown timestamp_unknown = False"
| "timestamp_less timestamp_unknown _ = True"

text \<open>
  The dynamic type of a target, as far as \<open>dynamic_cast\<close> asks for it in these rules:
  a plain target, an \<open>mtime_target\<close>, or a \<open>path_target\<close> (which is an
  \<open>mtime_target\<close>).
\<close>

datatype target_class = target_c | mtime_target_c | path_target_c

type_synonym tid = nat

text \<open>
  The members of a target that the rules use: its directory, its path (empty until it
  is assigned), its declared prerequisites and the resolved \<open>prerequisite_targets\<close>
  (pointers to targets, here their addresses).
\<close>

record btarget =
  cls :: target_class
  tdir :: dir_path
  path :: string
  prerequisites :: "string list"
  prerequisite_targets :: "tid list"

text \<open>
  The world: the targets by address and the files on disk with their modification
  times. Code that works on more than this keeps it in the extension of the record.
\<close>

record world =
  targets :: "tid \<Rightarrow> btarget"
  files :: "string \<rightharpoonup> nat"

definition has_prerequisites :: "btarget \<Rightarrow> bool" where
  "has_prerequisites t \<longleftrightarrow> prerequisites t \<noteq> []"

text \<open>
  Modelled from the spec: \<open>mtime ()\<close> is the modification time of the file at the
  target's path as observed from the filesystem, \<open>timestamp_nonexistent\<close> when there is
  no such file.
\<close>

definition mtime :: "'x world_scheme \<Rightarrow> btarget \<Rightarrow> timestamp" where
  "mtime w t = (case files w (path t) of None \<Rightarrow> timestamp_nonexistent | Some m \<Rightarrow> Time m)"

text \<open>There is a file at the path.\<close>

definition file_exists :: "'x world_scheme \<Rightarrow> string \<Rightarrow> bool" where
  "file_exists w p \<longleftrightarrow> files w p \<noteq> None"

subsection \<open>path_rule\<close>

text \<open>
  \<open>path_rule::match\<close> (rule.cxx:33-65). The result is the \<open>void*\<close>: \<open>Some t\<close> for
  \<open>&t\<close>, \<open>None\<close> for \<open>nullptr\<close>. \<open>derive_path\<close> is \<open>path_target::derive_path\<close>,
  a parameter; it may fail. A \<open>dynamic_cast\<close> to a reference of a type the target does
  not have throws.
\<close>

definition path_rule_match ::
  "(btarget \<Rightarrow> error + btarget) \<Rightarrow> action \<Rightarrow> tid \<Rightarrow> 'x world_scheme
    \<Rightarrow> (error + tid option) \<times> 'x world_scheme" where
  "path_rule_match derive_path a t w =
     (if a = perform_update_id then
        (let pt = targets w t in
         if cls pt \<noteq> path_target_c then (Inl Bad_cast, w)
         else
           (case (if path pt = [] then derive_path pt else Inr pt) of
              Inl e \<Rightarrow> (Inl e, w)
            | Inr pt' \<Rightarrow>
                (let w' = w\<lparr>targets := (targets w)(t := pt')\<rparr> in
                 (Inr (if mtime w' pt' \<noteq> timestamp_nonexistent then Some t else None), w'))))
      else (Inr (Some t), w))"

text \<open>
  \<open>path_rule::apply\<close> (rule.cxx:67-88). \<open>search_and_match\<close> is a parameter.
\<close>

definition path_rule_apply ::
  "(action \<Rightarrow> tid \<Rightarrow> 'x world_scheme \<Rightarrow> (error + unit) \<times> 'x world_scheme) \<Rightarrow>
   action \<Rightarrow> tid \<Rightarrow> 'x world_scheme \<Rightarrow> (error + recipe_type) \<times> 'x world_scheme" where
  "path_rule_apply search_and_match a t w =
     (if operation a = clean_id then (Inr noop_recipe, w)
      else
        (case search_and_match a t w of
           (Inl e, w') \<Rightarrow> (Inl e, w')
         | (Inr _, w') \<Rightarrow>
             (Inr (if a = perform_update_id then Function_pointer path_rule_perform_update_fn
                   else if has_prerequisites (targets w' t) then default_recipe
                   else noop_recipe), w')))"

text \<open>
  \<open>path_rule::perform_update\<close> (rule.cxx:90-124). \<open>execute\<close> is a parameter: it
  returns the state of the prerequisite or fails, and changes the world. The loop runs
  over \<open>t.prerequisite_targets\<close>; \<open>fail\<close> leaves it at once.
\<close>

fun perform_update_loop ::
  "(action \<Rightarrow> tid \<Rightarrow> 'x world_scheme \<Rightarrow> (error + target_state) \<times> 'x world_scheme) \<Rightarrow>
   action \<Rightarrow> timestamp \<Rightarrow> tid list \<Rightarrow> 'x world_scheme
    \<Rightarrow> (error + target_state) \<times> 'x world_scheme" where
  "perform_update_loop execute a mt [] w = (Inr Unchanged, w)"
| "perform_update_loop execute a mt (pt # pts) w =
     (case execute a pt w of
        (Inl e, w') \<Rightarrow> (Inl e, w')
      | (Inr ts, w') \<Rightarrow>
          (if cls (targets w' pt) \<noteq> target_c then
             (let mp = mtime w' (targets w' pt) in
              if timestamp_less mt mp then (Inl (No_recipe_prerequisite_ahead pt), w')
              else perform_update_loop execute a mt pts w')
           else
             (if ts = Changed then (Inl (No_recipe_prerequisite_updated pt), w')
              else perform_update_loop execute a mt pts w')))"

definition path_rule_perform_update ::
  "(action \<Rightarrow> tid \<Rightarrow> 'x world_scheme \<Rightarrow> (error + target_state) \<times> 'x world_scheme) \<Rightarrow>
   action \<Rightarrow> tid \<Rightarrow> 'x world_scheme \<Rightarrow> (error + target_state) \<times> 'x world_scheme" where
  "path_rule_perform_update execute a t w =
     (if cls (targets w t) \<noteq> path_target_c then (Inl Bad_cast, w)
      else perform_update_loop execute a (mtime w (targets w t))
             (prerequisite_targets (targets w t)) w)"

subsection \<open>fsdir_rule\<close>

datatype rmdir_status = rmdir_success | rmdir_not_exist | rmdir_not_empty

text \<open>
  \<open>fsdir_rule::perform_update\<close> (rule.cxx:196-234). \<open>execute_prerequisites\<close>,
  \<open>dir_exists\<close> and \<open>try_mkdir\<close> are parameters; a \<open>system_error\<close> of \<open>try_mkdir\<close>
  becomes the failure "unable to create directory".
\<close>

definition fsdir_rule_perform_update ::
  "(action \<Rightarrow> tid \<Rightarrow> 'x world_scheme \<Rightarrow> (error + target_state) \<times> 'x world_scheme) \<Rightarrow>
   ('x world_scheme \<Rightarrow> dir_path \<Rightarrow> bool) \<Rightarrow>
   (dir_path \<Rightarrow> 'x world_scheme \<Rightarrow> bool \<times> 'x world_scheme) \<Rightarrow>
   action \<Rightarrow> tid \<Rightarrow> 'x world_scheme \<Rightarrow> (error + target_state) \<times> 'x world_scheme" where
  "fsdir_rule_perform_update execute_prerequisites dir_exists try_mkdir a t w =
     (case (if has_prerequisites (targets w t) then execute_prerequisites a t w
            else (Inr Unchanged, w)) of
        (Inl e, w1) \<Rightarrow> (Inl e, w1)
      | (Inr ts, w1) \<Rightarrow>
          (let d = tdir (targets w1 t) in
           if \<not> dir_exists w1 d then
             (case try_mkdir d w1 of
                (False, w2) \<Rightarrow> (Inl (Unable_to_create_directory d), w2)
              | (True, w2) \<Rightarrow> (Inr Changed, w2))
           else (Inr ts, w1)))"

text \<open>
  \<open>fsdir_rule::perform_clean\<close> (rule.cxx:236-258). \<open>rmdir\<close> (it may fail) and
  \<open>reverse_execute_prerequisites\<close> are parameters.
\<close>

definition fsdir_rule_perform_clean ::
  "(dir_path \<Rightarrow> 'x world_scheme \<Rightarrow> (error + rmdir_status) \<times> 'x world_scheme) \<Rightarrow>
   (action \<Rightarrow> tid \<Rightarrow> 'x world_scheme \<Rightarrow> (error + target_state) \<times> 'x world_scheme) \<Rightarrow>
   action \<Rightarrow> tid \<Rightarrow> 'x world_scheme \<Rightarrow> (error + target_state) \<times> 'x world_scheme" where
  "fsdir_rule_perform_clean rmdir reverse_execute_prerequisites a t w =
     (case rmdir (tdir (targets w t)) w of
        (Inl e, w1) \<Rightarrow> (Inl e, w1)
      | (Inr rs, w1) \<Rightarrow>
          (case (if has_prerequisites (targets w1 t) then reverse_execute_prerequisites a t w1
                 else (Inr Unchanged, w1)) of
             (Inl e, w2) \<Rightarrow> (Inl e, w2)
           | (Inr ts, w2) \<Rightarrow>
               (case rs of
                  rmdir_success \<Rightarrow> (Inr Changed, w2)
                | rmdir_not_empty \<Rightarrow> (Inr Postponed, w2)
                | rmdir_not_exist \<Rightarrow> (Inr ts, w2))))"

subsection \<open>What perform_update does, prerequisite by prerequisite\<close>

text \<open>
  The executions of a list of prerequisite targets in order: each entry is the target,
  what \<open>execute\<close> returned for it and the world it left. An execution that fails is the
  last one.
\<close>

fun execute_trace ::
  "(action \<Rightarrow> tid \<Rightarrow> 'x world_scheme \<Rightarrow> (error + target_state) \<times> 'x world_scheme) \<Rightarrow>
   action \<Rightarrow> tid list \<Rightarrow> 'x world_scheme
    \<Rightarrow> (tid \<times> (error + target_state) \<times> 'x world_scheme) list" where
  "execute_trace execute a [] w = []"
| "execute_trace execute a (pt # pts) w =
     (case execute a pt w of
        (Inl e, w') \<Rightarrow> [(pt, Inl e, w')]
      | (Inr ts, w') \<Rightarrow> (pt, Inr ts, w') # execute_trace execute a pts w')"

text \<open>
  The failure that one execution gives rise to, for a target with modification time
  \<open>mt\<close>: the failure of the execution itself; for an mtime-based prerequisite, a
  modification time strictly greater than \<open>mt\<close>; for any other prerequisite, the state
  \<open>changed\<close>.
\<close>

fun ahead ::
  "timestamp \<Rightarrow> tid \<times> (error + target_state) \<times> 'x world_scheme \<Rightarrow> error option" where
  "ahead mt (pt, Inl e, w') = Some e"
| "ahead mt (pt, Inr ts, w') =
     (if cls (targets w' pt) \<noteq> target_c then
        (if timestamp_less mt (mtime w' (targets w' pt))
         then Some (No_recipe_prerequisite_ahead pt) else None)
      else (if ts = Changed then Some (No_recipe_prerequisite_updated pt) else None))"

text \<open>The world that a sequence of executions, started in \<open>w\<close>, ends in.\<close>

definition final_world ::
  "'x world_scheme \<Rightarrow> (tid \<times> (error + target_state) \<times> 'x world_scheme) list \<Rightarrow> 'x world_scheme" where
  "final_world w tr = (if tr = [] then w else snd (snd (last tr)))"

text \<open>
  The reading of the specification, for comparison: all prerequisite targets are
  executed first; then the call fails if any of them is ahead, and returns \<open>unchanged\<close>
  otherwise.
\<close>

definition perform_update_all_then_check ::
  "(action \<Rightarrow> tid \<Rightarrow> 'x world_scheme \<Rightarrow> (error + target_state) \<times> 'x world_scheme) \<Rightarrow>
   action \<Rightarrow> tid \<Rightarrow> 'x world_scheme \<Rightarrow> (error + target_state) \<times> 'x world_scheme" where
  "perform_update_all_then_check execute a t w =
     (if cls (targets w t) \<noteq> path_target_c then (Inl Bad_cast, w)
      else
        (let mt = mtime w (targets w t);
             tr = execute_trace execute a (prerequisite_targets (targets w t)) w in
         case List.find (\<lambda>s. ahead mt s \<noteq> None) tr of
           None \<Rightarrow> (Inr Unchanged, final_world w tr)
         | Some s \<Rightarrow> (Inl (the (ahead mt s)), final_world w tr)))"

text \<open>
  An \<open>execute\<close> for the examples: it creates, with modification time 9, the file of a
  target that has none and reports \<open>changed\<close>; a target whose file exists is
  \<open>unchanged\<close>.
\<close>

definition execute_create ::
  "action \<Rightarrow> tid \<Rightarrow> world \<Rightarrow> (error + target_state) \<times> world" where
  "execute_create a pt w =
     (case files w (path (targets w pt)) of
        None \<Rightarrow> (Inr Changed, w\<lparr>files := (files w)(path (targets w pt) \<mapsto> 9)\<rparr>)
      | Some m \<Rightarrow> (Inr Unchanged, w))"

text \<open>
  The world of the examples: \<open>file{hello}\<close> (target 0, modification time 1) with the
  prerequisites \<open>file{world}\<close> (target 1, modification time 2) and \<open>file{extra}\<close>
  (target 2, no file yet).
\<close>

definition hello_world :: world where
  "hello_world =
     \<lparr>targets = (\<lambda>i.
        if i = 0 then \<lparr>cls = path_target_c, tdir = ''d/'', path = ''d/hello'',
                       prerequisites = [''world'', ''extra''], prerequisite_targets = [1, 2]\<rparr>
        else if i = 1 then \<lparr>cls = path_target_c, tdir = ''d/'', path = ''d/world'',
                       prerequisites = [], prerequisite_targets = []\<rparr>
        else \<lparr>cls = path_target_c, tdir = ''d/'', path = ''d/extra'',
                       prerequisites = [], prerequisite_targets = []\<rparr>),
      files = [''d/hello'' \<mapsto> 1, ''d/world'' \<mapsto> 2]\<rparr>"

text \<open>
  A second world of examples: \<open>fsdir{a/b/}\<close> (target 0) with the prerequisite
  \<open>fsdir{a/}\<close> (target 1); both directories exist. \<open>rmdir_entry\<close> removes the entry of
  a directory; \<open>clean_parent\<close> stands for the cleaning of the prerequisites of target 0:
  it removes \<open>a/\<close> once \<open>a/b/\<close> is gone and is postponed while \<open>a/b/\<close> is there.
\<close>

definition dirs_world :: world where
  "dirs_world =
     \<lparr>targets = (\<lambda>i.
        if i = 0 then \<lparr>cls = target_c, tdir = ''a/b/'', path = [],
                       prerequisites = [''a/''], prerequisite_targets = [1]\<rparr>
        else \<lparr>cls = target_c, tdir = ''a/'', path = [],
                       prerequisites = [], prerequisite_targets = []\<rparr>),
      files = [''a/'' \<mapsto> 1, ''a/b/'' \<mapsto> 1]\<rparr>"

definition rmdir_entry :: "dir_path \<Rightarrow> world \<Rightarrow> (error + rmdir_status) \<times> world" where
  "rmdir_entry d w =
     (if files w d = None then (Inr rmdir_not_exist, w)
      else (Inr rmdir_success, w\<lparr>files := (files w)(d := None)\<rparr>))"

definition clean_parent :: "action \<Rightarrow> tid \<Rightarrow> world \<Rightarrow> (error + target_state) \<times> world" where
  "clean_parent a t w =
     (if files w ''a/b/'' = None then (Inr Changed, w\<lparr>files := (files w)(''a/'' := None)\<rparr>)
      else (Inr Postponed, w))"

section \<open>Bootstrap and import (build/file.cxx)\<close>

subsection \<open>Names, values, scopes\<close>

text \<open>
  Modelled from the spec: a name has a directory, a type and a value (the project
  qualifier and the pair marker play no part in file.cxx); the header build/name is not
  part of the sources. A name is simple when it has neither directory nor type, a
  directory when it has a directory and nothing else (file.cxx:203), and empty when it
  has nothing.
\<close>

record name =
  n_dir :: dir_path
  n_type :: string
  n_value :: string




type_synonym list_value = "name list"

text \<open>
  A value is null, a directory path or a list of names. How a value is read as one or
  the other (\<open>value_proxy::as\<close>) is a parameter, see \<open>env\<close> below.
\<close>

datatype "value" = Null | Dir_path_value dir_path | List_value list_value

text \<open>
  The members of a scope that file.cxx uses. \<open>vars\<close> maps a variable name to its value;
  a variable that was entered and not given a value is \<open>Null\<close>. \<open>src_path_0\<close> is the
  member \<open>src_path_\<close>, a pointer; \<open>root\<close> records that the scope was inserted as a root
  scope. The out path of a scope, \<open>path ()\<close>, is its key in the scope map.
\<close>

record scope =
  vars :: "string \<rightharpoonup> value"
  buildfiles :: "string set"
  src_path_0 :: "dir_path option"
  meta_operations :: "string list"
  operations :: "string list"
  root :: bool

definition empty_scope :: scope where
  "empty_scope = \<lparr>vars = Map.empty, buildfiles = {}, src_path_0 = None, meta_operations = [],
                   operations = [], root = False\<rparr>"

text \<open>
  The state: the scope map \<open>scopes\<close>, keyed by the out path of a scope, and the
  temporary scope of an import while there is one. A scope is referred to by its key or
  as the temporary scope.
\<close>

record build_state =
  scopes :: "dir_path \<rightharpoonup> scope"
  temp :: "scope option"

datatype scope_ref = Scope dir_path | Temp

text \<open>\<open>value_proxy::operator bool\<close>: the variable is there and not null.\<close>

definition defined_value :: "value option \<Rightarrow> bool" where
  "defined_value v \<longleftrightarrow> v \<noteq> None \<and> v \<noteq> Some Null"

text \<open>
  What file.cxx calls and the sources do not contain, as parameters: the filesystem
  (\<open>file_exists\<close>, here \<open>exists_file\<close>, and whether an \<open>ifstream\<close> opens), the parser (the state after
  \<open>parse_buildfile\<close> for a file, a root scope and a base scope, and its
  \<open>export_value\<close>), the two readings of a value, the lookup \<open>scope::operator[]\<close> with
  the flag of \<open>belongs (*global_scope)\<close>, \<open>root_scope ()\<close>,
  \<open>parent_scope ()->root_scope ()\<close>, \<open>normalize\<close> and the working directory.
\<close>

record env =
  exists_file :: "string \<Rightarrow> bool"
  is_open :: "string \<Rightarrow> bool"
  parse_buildfile :: "string \<Rightarrow> dir_path \<Rightarrow> scope_ref \<Rightarrow> build_state
                        \<Rightarrow> error + build_state \<times> list_value"
  as_dir_path :: "value \<Rightarrow> error + dir_path"
  as_list_value :: "value \<Rightarrow> error + list_value"
  lookup :: "build_state \<Rightarrow> dir_path \<Rightarrow> string \<Rightarrow> (value \<times> bool) option"
  root_scope :: "build_state \<Rightarrow> dir_path \<Rightarrow> dir_path option"
  parent_root_scope :: "build_state \<Rightarrow> dir_path \<Rightarrow> dir_path option"
  normalize :: "dir_path \<Rightarrow> dir_path"
  work :: dir_path





text \<open>Sequencing of steps that may fail.\<close>

definition and_then :: "error + 'a \<Rightarrow> ('a \<Rightarrow> error + 'b) \<Rightarrow> error + 'b" where
  "and_then m f = (case m of Inl e \<Rightarrow> Inl e | Inr x \<Rightarrow> f x)"

subsection \<open>Discovery and sourcing\<close>


definition is_out_root :: "env \<Rightarrow> dir_path \<Rightarrow> bool" where
  "is_out_root env d \<longleftrightarrow> exists_file env (d @ ''build/bootstrap/src-root.build'')"



subsection \<open>create_root\<close>

text \<open>
  Modelled from the spec: \<open>scopes.insert (out_root, true)\<close> allocates the scope or
  reuses the one that is there, and makes it a root scope; the id of an entry of an
  operation table is the position at which it was inserted.
\<close>

definition scopes_insert :: "dir_path \<Rightarrow> build_state \<Rightarrow> build_state" where
  "scopes_insert k st =
     st\<lparr>scopes := (scopes st)(k \<mapsto>
        (case scopes st k of None \<Rightarrow> empty_scope | Some s \<Rightarrow> s)\<lparr>root := True\<rparr>)\<rparr>"

definition table_insert :: "string \<Rightarrow> string list \<Rightarrow> string list \<times> nat" where
  "table_insert n tbl = (tbl @ [n], Suc (length tbl))"

text \<open>
  The first block of \<open>create_root\<close> (file.cxx:81-88): the four insertions, each inside
  an \<open>assert\<close> on the id it returns.
\<close>

definition enter_operations :: "scope \<Rightarrow> error + scope" where
  "enter_operations rs =
     (if meta_operations rs = [] then
        (let (mo, i0) = table_insert ''perform'' (meta_operations rs);
             (o1, i1) = table_insert ''default'' (operations rs);
             (o2, i2) = table_insert ''update'' o1;
             (o3, i3) = table_insert ''clean'' o2
         in if i0 = perform_id \<and> i1 = default_id \<and> i2 = update_id \<and> i3 = clean_id
            then Inr (rs\<lparr>meta_operations := mo, operations := o3\<rparr>)
            else Inl Assertion_failed)
      else Inr rs)"

text \<open>
  The two blocks that follow (file.cxx:93-122) have the same shape: \<open>rs.assign (x)\<close>
  enters the variable; when it has no value it gets the new one, otherwise the value it
  has must be the new one. \<open>mismatch\<close> is the diagnostic.
\<close>

definition assign_root_var ::
  "env \<Rightarrow> string \<Rightarrow> dir_path \<Rightarrow> (string \<Rightarrow> string \<Rightarrow> error) \<Rightarrow> scope \<Rightarrow> error + scope" where
  "assign_root_var env x d mismatch rs =
     (if \<not> defined_value (vars rs x) then Inr (rs\<lparr>vars := (vars rs)(x \<mapsto> Dir_path_value d)\<rparr>)
      else
        and_then (as_dir_path env (the (vars rs x)))
          (\<lambda>p. if p \<noteq> d then Inl (mismatch d p) else Inr rs))"

text \<open>
  \<open>create_root\<close> (file.cxx:70-125). The scope it returns is the one with the key
  \<open>out_root\<close>.
\<close>

definition create_root :: "env \<Rightarrow> dir_path \<Rightarrow> dir_path \<Rightarrow> build_state \<Rightarrow> error + build_state" where
  "create_root env out_root src_root st =
     (let st1 = scopes_insert out_root st in
      case scopes st1 out_root of
        None \<Rightarrow> Inl Null_dereference
      | Some rs \<Rightarrow>
          and_then (enter_operations rs) (\<lambda>rs1.
          and_then (assign_root_var env ''out_root'' out_root New_out_root_mismatch rs1) (\<lambda>rs2.
          and_then (if src_root \<noteq> []
                    then assign_root_var env ''src_root'' src_root New_src_root_mismatch rs2
                    else Inr rs2) (\<lambda>rs3.
          Inr (st1\<lparr>scopes := (scopes st1)(out_root \<mapsto> rs3)\<rparr>)))))"

subsection \<open>Bootstrapping\<close>




text \<open>\<open>rs.vars [x]\<close>: the variable of this scope, null when there is none.\<close>

definition scope_var :: "build_state \<Rightarrow> dir_path \<Rightarrow> string \<Rightarrow> value option" where
  "scope_var st k x = (case scopes st k of None \<Rightarrow> None | Some s \<Rightarrow> vars s x)"

definition value_of :: "value option \<Rightarrow> value" where
  "value_of v = (case v of None \<Rightarrow> Null | Some u \<Rightarrow> u)"




subsection \<open>import\<close>






subsection \<open>An environment for the examples\<close>

text \<open>
  A parser for the examples: the buildfiles of a project are empty, and the export stub
  assigns the variable \<open>lib\<close> in its base scope and exports the target it was passed.
\<close>

definition sample_parse ::
  "string \<Rightarrow> dir_path \<Rightarrow> scope_ref \<Rightarrow> build_state \<Rightarrow> error + build_state \<times> list_value" where
  "sample_parse bf rt base st =
     (case (base, temp st) of
        (Temp, Some ts) \<Rightarrow>
          Inr (st\<lparr>temp := Some (ts\<lparr>vars := (vars ts)(''lib'' \<mapsto> value_of (vars ts ''target''))\<rparr>)\<rparr>,
               case value_of (vars ts ''target'') of List_value l \<Rightarrow> l | _ \<Rightarrow> [])
      | _ \<Rightarrow> Inr (st, []))"

text \<open>
  The project \<open>b\<close> lives in \<open>/b/\<close>, built in its source directory, with a bootstrap
  file and an export stub. A variable is looked up in the scope and then in the global
  scope \<open>/\<close>; a scope is its own root scope when it is a root scope.
\<close>

definition sample_env :: env where
  "sample_env =
     \<lparr>exists_file = (\<lambda>p. p = ''/b/build/bootstrap.build'' \<or> p = ''/b/build/export.build''),
      is_open = (\<lambda>p. p = ''/b/build/bootstrap.build'' \<or> p = ''/b/build/export.build''),
      parse_buildfile = sample_parse,
      as_dir_path = (\<lambda>v. case v of Dir_path_value p \<Rightarrow> Inr p | _ \<Rightarrow> Inl (Other_failure 1)),
      as_list_value = (\<lambda>v. case v of List_value l \<Rightarrow> Inr l | _ \<Rightarrow> Inl (Other_failure 2)),
      lookup = (\<lambda>st k x.
        if defined_value (scope_var st k x) then Some (value_of (scope_var st k x), False)
        else if defined_value (scope_var st ''/'' x)
        then Some (value_of (scope_var st ''/'' x), True)
        else None),
      root_scope = (\<lambda>st k. case scopes st k of
                              None \<Rightarrow> None
                            | Some s \<Rightarrow> if root s then Some k else None),
      parent_root_scope = (\<lambda>st k. None),
      normalize = (\<lambda>p. p),
      work = ''/w/''\<rparr>"

text \<open>
  The state of the examples: the global scope with \<open>config.b = /b/\<close> from the command
  line, and the root scope \<open>/a/\<close> of the importing project.
\<close>

definition sample_state :: build_state where
  "sample_state =
     \<lparr>scopes =
        [''/'' \<mapsto> empty_scope\<lparr>vars :=
                   [''config.b'' \<mapsto> List_value [\<lparr>n_dir = ''/b/'', n_type = [], n_value = []\<rparr>]]\<rparr>,
         ''/a/'' \<mapsto> empty_scope\<lparr>vars :=
                   [''out_root'' \<mapsto> Dir_path_value ''/a/'', ''src_root'' \<mapsto> Dir_path_value ''/a/''],
                   meta_operations := [''perform''],
                   operations := [''default'', ''update'', ''clean''],
                   src_path_0 := Some ''/a/'',
                   root := True\<rparr>],
      temp = None\<rparr>"

subsection \<open>The root scopes of an import, and the variables of one scope\<close>





section \<open>The test script runner (build2/test/script/runner.cxx)\<close>

subsection \<open>Output checks\<close>

text \<open>
  The filesystem, as far as the checks read it: at a path there is nothing, a directory,
  or a file with its content; a file may be one that cannot be read (opening or reading
  it raises \<open>io_error\<close>).
\<close>

datatype entry = Directory | File string bool

type_synonym filesystem = "string \<rightharpoonup> entry"

text \<open>
  Modelled from the spec: \<open>exists\<close> for a file path (build2/filesystem is not part of
  the sources) holds when there is a file at the path.
\<close>

definition exists_path :: "filesystem \<Rightarrow> string \<Rightarrow> bool" where
  "exists_path fs p \<longleftrightarrow> (case fs p of Some (File c r) \<Rightarrow> True | _ \<Rightarrow> False)"

text \<open>
  \<open>non_empty\<close> (runner.cxx:23-43): \<open>is.peek ()\<close> is not \<open>eof\<close> when the file has a
  first byte; an \<open>io_error\<close> becomes the failure "unable to read".
\<close>

definition non_empty :: "filesystem \<Rightarrow> string \<Rightarrow> error + bool" where
  "non_empty fs p =
     (if p = [] \<or> \<not> exists_path fs p then Inr False
      else
        (case fs p of
           Some (File c readable) \<Rightarrow> if readable then Inr (c \<noteq> []) else Inl (Unable_to_read p)
         | _ \<Rightarrow> Inr False))"

text \<open>
  The redirect types (runner.cxx:277-305) and the members of a redirect that
  \<open>check_output\<close> reads: its type, the here-string and the here-document.
\<close>

datatype redirect_type =
  rt_pass | rt_null | rt_merge | rt_file | rt_none | rt_here_string | rt_here_document

record redirect =
  rd_type :: redirect_type
  rd_str :: string
  rd_doc :: string

text \<open>
  A scope of the script: its working directory and the paths registered for cleanup, in
  the order of registration.
\<close>

record script_scope =
  wd_path :: dir_path
  cleanups :: "string list"

text \<open>
  Two parameters: \<open>write_file\<close> writes a file with the given content, or does not
  (an \<open>io_error\<close>); \<open>diff\<close> is what the \<open>diff\<close> process does with the expected and
  the actual output: it reports equal files, different files, an \<open>io_error\<close> while
  waiting, or it cannot be executed.
\<close>

datatype diff_result = Diff_equal | Diff_different | Diff_io_error | Diff_not_executed

text \<open>
  \<open>check_output\<close> (runner.cxx:49-163), for the output file \<open>op\<close> and the redirect
  \<open>rd\<close>. It returns the scope (with the file of the expected output registered for
  cleanup) and the filesystem (with that file written).
\<close>

definition check_output ::
  "(string \<Rightarrow> string \<Rightarrow> filesystem \<Rightarrow> filesystem option) \<Rightarrow>
   (filesystem \<Rightarrow> string \<Rightarrow> string \<Rightarrow> diff_result) \<Rightarrow> string \<Rightarrow> redirect \<Rightarrow>
   script_scope \<Rightarrow> filesystem \<Rightarrow> error + script_scope \<times> filesystem" where
  "check_output write_file diff op rd sp fs =
     (if rd_type rd = rt_none then
        (if op = [] then Inl Assertion_failed
         else
           (case non_empty fs op of
              Inl e \<Rightarrow> Inl e
            | Inr True \<Rightarrow> Inl (Unexpectedly_writes op)
            | Inr False \<Rightarrow> Inr (sp, fs)))
      else if rd_type rd = rt_here_string \<or> rd_type rd = rt_here_document then
        (if op = [] then Inl Assertion_failed
         else
           (let orp = op @ ''.orig'' in
            case write_file orp (if rd_type rd = rt_here_string then rd_str rd else rd_doc rd) fs of
              None \<Rightarrow> Inl (Unable_to_write orp)
            | Some fs' \<Rightarrow>
                (let sp' = sp\<lparr>cleanups := cleanups sp @ [orp]\<rparr> in
                 case diff fs' orp op of
                   Diff_equal \<Rightarrow> Inr (sp', fs')
                 | Diff_different \<Rightarrow> Inl (Output_mismatch op orp)
                 | Diff_io_error \<Rightarrow> Inl Unable_to_compare
                 | Diff_not_executed \<Rightarrow> Inl (Unable_to_open ''diff''))))
      else Inr (sp, fs))"

subsection \<open>Cleanup\<close>

datatype rmfile_status = rmfile_success | rmfile_not_exist

text \<open>
  Modelled from the spec: \<open>to_directory\<close> of a path (library butl) holds for a path
  that ends with the separator.
\<close>

definition to_directory :: "string \<Rightarrow> bool" where
  "to_directory p \<longleftrightarrow> p \<noteq> [] \<and> last p = CHR ''/''"

text \<open>
  What \<open>leave\<close> does with one path (the body of the \<open>if\<close> at runner.cxx:200-217).
  \<open>rmdir\<close> and \<open>rmfile\<close> (build2/filesystem) are parameters that work on a world
  \<open>'w\<close>; they may fail themselves.
\<close>

definition remove_path ::
  "(string \<Rightarrow> 'w \<Rightarrow> (error + rmdir_status) \<times> 'w) \<Rightarrow>
   (string \<Rightarrow> 'w \<Rightarrow> (error + rmfile_status) \<times> 'w) \<Rightarrow> string \<Rightarrow> 'w \<Rightarrow> (error + unit) \<times> 'w" where
  "remove_path rmdir rmfile p w =
     (if to_directory p then
        (case rmdir p w of
           (Inl e, w') \<Rightarrow> (Inl e, w')
         | (Inr r, w') \<Rightarrow>
             if r \<noteq> rmdir_success then
               (Inl (if r = rmdir_not_empty then Cleanup_directory_not_empty p
                     else Cleanup_directory_not_exist p), w')
             else (Inr (), w'))
      else
        (case rmfile p w of
           (Inl e, w') \<Rightarrow> (Inl e, w')
         | (Inr r, w') \<Rightarrow>
             if r = rmfile_not_exist then (Inl (Cleanup_file_not_exist p), w')
             else (Inr (), w')))"

text \<open>
  The loop of \<open>leave\<close> (runner.cxx:196-218) over the paths still to visit, with the set
  \<open>rp\<close> of the paths seen so far.
\<close>

fun leave_loop ::
  "(string \<Rightarrow> 'w \<Rightarrow> (error + rmdir_status) \<times> 'w) \<Rightarrow>
   (string \<Rightarrow> 'w \<Rightarrow> (error + rmfile_status) \<times> 'w) \<Rightarrow> string list \<Rightarrow> string set \<Rightarrow> 'w
    \<Rightarrow> (error + unit) \<times> 'w" where
  "leave_loop rmdir rmfile [] rp w = (Inr (), w)"
| "leave_loop rmdir rmfile (p # ps) rp w =
     (if p \<notin> rp then
        (case remove_path rmdir rmfile p w of
           (Inl e, w') \<Rightarrow> (Inl e, w')
         | (Inr u, w') \<Rightarrow> leave_loop rmdir rmfile ps (insert p rp) w')
      else leave_loop rmdir rmfile ps rp w)"

text \<open>
  \<open>concurrent_runner::leave\<close> (runner.cxx:183-219): the loop runs over the cleanups in
  reverse.
\<close>

definition leave ::
  "(string \<Rightarrow> 'w \<Rightarrow> (error + rmdir_status) \<times> 'w) \<Rightarrow>
   (string \<Rightarrow> 'w \<Rightarrow> (error + rmfile_status) \<times> 'w) \<Rightarrow> script_scope \<Rightarrow> 'w \<Rightarrow> (error + unit) \<times> 'w" where
  "leave rmdir rmfile sp w = leave_loop rmdir rmfile (rev (cleanups sp)) {} w"

text \<open>
  For comparison, the reading of the specification, written from its words: the given
  paths are taken one after the other. A directory path is removed with \<open>rmdir\<close>: the
  directory must exist and be empty, that is, \<open>rmdir\<close> must report success; a directory
  that is reported not empty or missing ends the call with the failure "is not empty"
  or "does not exist". A file path is removed with \<open>rmfile\<close>: the file must exist; a
  file that is reported missing ends the call with the failure "does not exist". A
  failure of \<open>rmdir\<close> or \<open>rmfile\<close> itself ends the call too.
\<close>

fun remove_in_order ::
  "(string \<Rightarrow> 'w \<Rightarrow> (error + rmdir_status) \<times> 'w) \<Rightarrow>
   (string \<Rightarrow> 'w \<Rightarrow> (error + rmfile_status) \<times> 'w) \<Rightarrow> string list \<Rightarrow> 'w \<Rightarrow> (error + unit) \<times> 'w" where
  "remove_in_order rmdir rmfile [] w = (Inr (), w)"
| "remove_in_order rmdir rmfile (p # ps) w =
     (if to_directory p then
        (case rmdir p w of
           (Inl e, w') \<Rightarrow> (Inl e, w')
         | (Inr rmdir_success, w') \<Rightarrow> remove_in_order rmdir rmfile ps w'
         | (Inr rmdir_not_empty, w') \<Rightarrow> (Inl (Cleanup_directory_not_empty p), w')
         | (Inr rmdir_not_exist, w') \<Rightarrow> (Inl (Cleanup_directory_not_exist p), w'))
      else
        (case rmfile p w of
           (Inl e, w') \<Rightarrow> (Inl e, w')
         | (Inr rmfile_success, w') \<Rightarrow> remove_in_order rmdir rmfile ps w'
         | (Inr rmfile_not_exist, w') \<Rightarrow> (Inl (Cleanup_file_not_exist p), w')))"

text \<open>
  Modelled from the spec, for the examples: \<open>rmdir\<close> and \<open>rmfile\<close> on a filesystem that
  is the list of its paths. A directory is removed when it is there and no other path
  lies in it; a file is removed when it is there.
\<close>

definition rmdir_paths :: "string \<Rightarrow> string list \<Rightarrow> (error + rmdir_status) \<times> string list" where
  "rmdir_paths d w =
     (if d \<notin> set w then (Inr rmdir_not_exist, w)
      else if \<exists>p\<in>set w. p \<noteq> d \<and> take (length d) p = d then (Inr rmdir_not_empty, w)
      else (Inr rmdir_success, removeAll d w))"

definition rmfile_paths :: "string \<Rightarrow> string list \<Rightarrow> (error + rmfile_status) \<times> string list" where
  "rmfile_paths p w =
     (if p \<notin> set w then (Inr rmfile_not_exist, w)
      else (Inr rmfile_success, removeAll p w))"

section \<open>Theorems\<close>

subsection \<open>The target set: lookup\<close>

lemma map_find_Some:
  "map_find ext_eq k s = Some i \<Longrightarrow>
     i < length s \<and> target_key_eq ext_eq k (key (s ! i)) \<and>
     (\<forall>j<i. \<not> target_key_eq ext_eq k (key (s ! j)))"
proof (induction s arbitrary: i)
  case Nil
  then show ?case by simp
next
  case (Cons t ts)
  show ?case
  proof (cases "target_key_eq ext_eq k (key t)")
    case True
    with Cons.prems show ?thesis by simp
  next
    case False
    with Cons.prems obtain i' where i': "map_find ext_eq k ts = Some i'" "i = Suc i'"
      by auto
    from Cons.IH [OF i'(1)] False i'(2) show ?thesis
      by (auto simp: less_Suc_eq_0_disj)
  qed
qed



lemma target_set_find_result:
  "target_set_find ext_eq k s =
     (map_find ext_eq k s,
      case map_find ext_eq k s of None \<Rightarrow> s
      | Some i \<Rightarrow> if ext (s ! i) \<noteq> key_ext k \<and> key_ext k \<noteq> None
                  then s[i := (s ! i)\<lparr>ext := key_ext k\<rparr>] else s)"
  by (simp add: target_set_find_def Let_def split: option.splits)



lemma target_set_find_ext:
  assumes spec: "\<forall>a b. ext_eq (Some a) (Some b) \<longrightarrow> a = b"
  shows "length (snd (target_set_find ext_eq k s)) = length s \<and>
         (\<forall>j<length s.
            snd (target_set_find ext_eq k s) ! j =
              (s ! j)\<lparr>ext := ext (snd (target_set_find ext_eq k s) ! j)\<rparr> \<and>
            (ext (snd (target_set_find ext_eq k s) ! j) = ext (s ! j) \<or>
             ext (s ! j) = None \<and> ext (snd (target_set_find ext_eq k s) ! j) = key_ext k))"
proof (cases "map_find ext_eq k s")
  case None
  then show ?thesis by (simp add: target_set_find_result)
next
  case (Some i)
  from map_find_Some [OF Some] have i: "i < length s"
    and hit: "ext_eq (key_ext k) (ext (s ! i))"
    by (simp_all add: target_key_eq_def key_def)
  show ?thesis
  proof (cases "ext (s ! i) \<noteq> key_ext k \<and> key_ext k \<noteq> None")
    case False
    with Some have "snd (target_set_find ext_eq k s) = s"
      by (auto simp: target_set_find_result)
    then show ?thesis by simp
  next
    case True
    with Some have s': "snd (target_set_find ext_eq k s) = s[i := (s ! i)\<lparr>ext := key_ext k\<rparr>]"
      by (auto simp: target_set_find_result)
    have "ext (s ! i) = None"
    proof (cases "ext (s ! i)")
      case (Some b)
      from True obtain a where "key_ext k = Some a" by auto
      with hit Some spec have "a = b" by simp
      with True Some \<open>key_ext k = Some a\<close> show ?thesis by simp
    qed simp
    then show ?thesis
      using i by (simp add: s' nth_list_update)
  qed
qed











text \<open>
  C2. Monotonic update of the extension. When the key comparison never takes two
  different specified extensions as equal, \<open>target_set::find\<close> and
  \<open>target_set::insert\<close> leave the extension of every stored target as it was, or
  change it from unspecified to the extension of the key: a specified extension is never
  replaced. \<open>find\<close> has no error path; when \<open>insert\<close> fails, it is the factory that
  fails, after the lookup found nothing.
\<close>

theorem extension_update_monotonic:
  assumes spec: "\<forall>a b. ext_eq (Some a) (Some b) \<longrightarrow> a = b"
  shows "(\<forall>j<length s.
            ext (snd (target_set_find ext_eq k s) ! j) = ext (s ! j) \<or>
            ext (s ! j) = None \<and> ext (snd (target_set_find ext_eq k s) ! j) = key_ext k) \<and>
         (\<forall>i r s'. target_set_insert ext_eq a0 tt d ou n e s = Inr (i, r, s') \<longrightarrow>
            length s \<le> length s' \<and>
            (\<forall>j<length s. ext (s' ! j) = ext (s ! j) \<or> ext (s ! j) = None \<and> ext (s' ! j) = e)) \<and>
         (\<forall>err. target_set_insert ext_eq a0 tt d ou n e s = Inl err \<longrightarrow>
            target_set_find ext_eq
              \<lparr>key_type = tt, key_dir = d, key_out = ou, key_name = n, key_ext = e\<rparr> s = (None, s))"
proof -
  define k' where "k' = \<lparr>key_type = tt, key_dir = d, key_out = ou, key_name = n, key_ext = e\<rparr>"
  have len: "length (snd (target_set_find ext_eq k' s)) = length s"
    using target_set_find_ext [OF spec] by blast
  have "length s \<le> length s' \<and>
        (\<forall>j<length s. ext (s' ! j) = ext (s ! j) \<or> ext (s ! j) = None \<and> ext (s' ! j) = e)"
    if ok: "target_set_insert ext_eq a0 tt d ou n e s = Inr (i, r, s')" for i r s'
  proof -
    from ok have "s' = snd (target_set_find ext_eq k' s) \<or>
                  (\<exists>pt. s' = snd (target_set_find ext_eq k' s) @ [pt])"
      by (auto simp: target_set_insert_def k'_def split: prod.splits option.splits sum.splits)
    then have "length s \<le> length s'" and
      "\<forall>j<length s. s' ! j = snd (target_set_find ext_eq k' s) ! j"
      using len by (auto simp: nth_append)
    moreover have "key_ext k' = e" by (simp add: k'_def)
    ultimately show ?thesis
      using target_set_find_ext [OF spec, of k' s] by simp
  qed
  moreover have "target_set_find ext_eq k' s = (None, s)"
    if "target_set_insert ext_eq a0 tt d ou n e s = Inl err" for err
    using that
    by (auto simp: target_set_insert_def k'_def target_set_find_result
        split: prod.splits option.splits sum.splits)
  ultimately show ?thesis
    using target_set_find_ext [OF spec, of k s] unfolding k'_def by blast
qed

text \<open>
  For a target type \<open>cxx\<close> with the factory \<open>target_factory\<close>, as a module may
  define it, the unspecified extension of a stored \<open>cxx{hello}\<close> becomes \<open>cxx\<close>; an
  insert of \<open>file{hello.c}\<close> does not find \<open>file{hello.cxx}\<close> and leaves \<open>cxx\<close> in
  place; \<open>man{hello}\<close> without an extension is refused by its factory.
\<close>

theorem extension_update_monotonic_witness:
  "snd (target_set_find (\<lambda>x y. x = None \<or> y = None \<or> x = y)
     \<lparr>key_type = Target_type ''cxx'' (Some file_static_type) (Some target_factory), key_dir = ''out/'', key_out = [], key_name = ''hello'',
      key_ext = Some ''cxx''\<rparr>
     [new_target (0::nat) (Target_type ''cxx'' (Some file_static_type) (Some target_factory)) ''out/'' [] ''hello'' None]) =
     [new_target 0 (Target_type ''cxx'' (Some file_static_type) (Some target_factory)) ''out/'' [] ''hello'' (Some ''cxx'')] \<and>
   target_set_insert (\<lambda>x y. x = None \<or> y = None \<or> x = y) (0::nat)
     file_static_type ''out/'' [] ''hello'' (Some ''c'')
     [new_target 0 file_static_type ''out/'' [] ''hello'' (Some ''cxx'')] =
     Inr (1, True, [new_target 0 file_static_type ''out/'' [] ''hello'' (Some ''cxx''),
                    new_target 0 file_static_type ''out/'' [] ''hello'' (Some ''c'')]) \<and>
   target_set_insert (\<lambda>x y. x = None \<or> y = None \<or> x = y) (0::nat)
     man_static_type ''out/'' [] ''hello'' None [] =
     Inl (Man_target_must_include_extension ''hello'')"
proof -
  let ?eq = "\<lambda>x y :: string option. x = None \<or> y = None \<or> x = y"
  let ?t = "new_target (0::nat) file_static_type ''out/'' [] ''hello'' (Some ''cxx'')"
  have spec: "\<forall>a b. ?eq (Some a) (Some b) \<longrightarrow> a = b" by simp
  have ins: "target_set_insert ?eq (0::nat) file_static_type ''out/'' [] ''hello'' (Some ''c'') [?t] =
     Inr (1, True, [?t, new_target 0 file_static_type ''out/'' [] ''hello'' (Some ''c'')])"
    by (simp add: target_set_insert_def target_set_find_def target_key_eq_def key_def
        new_target_def file_static_type_def)
  have "ext ([?t, new_target 0 file_static_type ''out/'' [] ''hello'' (Some ''c'')] ! 0) =
          Some ''cxx''"
    using extension_update_monotonic [of ?eq "[?t]" _ 0 file_static_type "''out/''" "[]"
        "''hello''" "Some ''c''", OF spec] ins
    by (simp add: new_target_def)
  moreover have "snd (target_set_find ?eq
     \<lparr>key_type = Target_type ''cxx'' (Some file_static_type) (Some target_factory), key_dir = ''out/'', key_out = [], key_name = ''hello'',
      key_ext = Some ''cxx''\<rparr>
     [new_target (0::nat) (Target_type ''cxx'' (Some file_static_type) (Some target_factory)) ''out/'' [] ''hello'' None]) =
     [new_target 0 (Target_type ''cxx'' (Some file_static_type) (Some target_factory)) ''out/'' [] ''hello'' (Some ''cxx'')]"
    by (simp add: target_set_find_def target_key_eq_def key_def new_target_def)
  moreover have "target_set_insert ?eq (0::nat) man_static_type ''out/'' [] ''hello'' None [] =
     Inl (Man_target_must_include_extension ''hello'')"
    by (simp add: target_set_insert_def target_set_find_def man_static_type_def)
  ultimately show ?thesis using ins by simp
qed

subsection \<open>Recipe override\<close>

text \<open>
  C3. On a target that already has a recipe (installed for the action \<open>action t\<close>),
  \<open>target::recipe (a, r)\<close> goes through only when \<open>a\<close> is stronger than the installed
  action (\<open>a > action t\<close>); with an action that is not stronger the call is rejected
  by the assertion and installs nothing.
\<close>

theorem recipe_override_stronger:
  "the_recipe t \<noteq> Empty \<Longrightarrow>
     (\<forall>t'. recipe gt eq a r t = Inr t' \<longrightarrow> gt a (action t)) \<and>
     (\<not> gt a (action t) \<longrightarrow> recipe gt eq a r t = Inl Assertion_failed)"
  by (simp add: recipe_def Let_def)

text \<open>
  With actions numbered so that a larger number is stronger: over a recipe installed for
  action 1, action 2 installs its recipe and action 1 is rejected.
\<close>

theorem recipe_override_stronger_witness:
  "recipe (\<lambda>x y. y < x) (=) (2::nat) (Callable 0)
      \<lparr>type = file_static_type, dir = ''out/'', out = [], name = ''hello'', ext = None,
       action = 1, the_recipe = Function_pointer default_action, raw_state = Unknown,
       dependents = 2\<rparr> =
    Inr \<lparr>type = file_static_type, dir = ''out/'', out = [], name = ''hello'', ext = None,
       action = 2, the_recipe = Callable 0, raw_state = Unknown, dependents = 0\<rparr> \<and>
   recipe (\<lambda>x y. y < x) (=) (1::nat) (Callable 0)
      \<lparr>type = file_static_type, dir = ''out/'', out = [], name = ''hello'', ext = None,
       action = 1, the_recipe = Function_pointer default_action, raw_state = Unknown,
       dependents = 2\<rparr> = Inl Assertion_failed"
proof -
  let ?t = "\<lparr>type = file_static_type, dir = ''out/'', out = [], name = ''hello'', ext = None,
       action = 1::nat, the_recipe = Function_pointer default_action, raw_state = Unknown,
       dependents = 2\<rparr>"
  have h: "the_recipe ?t \<noteq> Empty" by simp
  have "recipe (\<lambda>x y. y < x) (=) 1 (Callable 0) ?t = Inl Assertion_failed"
    using recipe_override_stronger [of ?t "\<lambda>x y. y < x" "(=)" 1 "Callable 0", OF h] by simp
  moreover have "recipe (\<lambda>x y. y < x) (=) 2 (Callable 0) ?t =
     Inr \<lparr>type = file_static_type, dir = ''out/'', out = [], name = ''hello'', ext = None,
       action = 2, the_recipe = Callable 0, raw_state = Unknown, dependents = 0\<rparr>"
    by (simp add: recipe_def)
  ultimately show ?thesis by simp
qed

subsection \<open>The loop of perform_update\<close>

lemma perform_update_loop_trace:
  "perform_update_loop execute a mt pts w =
     (case List.find (\<lambda>s. ahead mt s \<noteq> None) (execute_trace execute a pts w) of
        None \<Rightarrow> (Inr Unchanged, final_world w (execute_trace execute a pts w))
      | Some s \<Rightarrow> (Inl (the (ahead mt s)), snd (snd s)))"
proof (induction pts arbitrary: w)
  case Nil
  show ?case by (simp add: final_world_def)
next
  case (Cons pt pts)
  obtain r w' where ex: "execute a pt w = (r, w')" by (cases "execute a pt w")
  show ?case
  proof (cases r)
    case (Inl e)
    with ex show ?thesis by simp
  next
    case (Inr ts)
    have tr: "execute_trace execute a (pt # pts) w =
                (pt, Inr ts, w') # execute_trace execute a pts w'"
      using ex Inr by simp
    show ?thesis
    proof (cases "ahead mt (pt, Inr ts, w')")
      case None
      then have "perform_update_loop execute a mt (pt # pts) w =
                  perform_update_loop execute a mt pts w'"
        using ex Inr by (simp add: Let_def split: if_splits)
      moreover have "final_world w ((pt, Inr ts, w') # execute_trace execute a pts w') =
                     final_world w' (execute_trace execute a pts w')"
        by (simp add: final_world_def)
      ultimately show ?thesis
        unfolding tr using None Cons.IH [of w'] by (simp split: option.splits)
    next
      case (Some e)
      then have "perform_update_loop execute a mt (pt # pts) w = (Inl e, w')"
        using ex Inr by (simp add: Let_def split: if_splits)
      then show ?thesis
        unfolding tr using Some by simp
    qed
  qed
qed

lemma execute_trace_all:
  "\<forall>s\<in>set (execute_trace execute a pts w). ahead mt s = None \<Longrightarrow>
     map fst (execute_trace execute a pts w) = pts"
proof (induction pts arbitrary: w)
  case Nil
  show ?case by simp
next
  case (Cons pt pts)
  obtain r w' where ex: "execute a pt w = (r, w')" by (cases "execute a pt w")
  show ?case
  proof (cases r)
    case (Inl e)
    with ex Cons.prems show ?thesis by simp
  next
    case (Inr ts)
    with ex Cons.prems Cons.IH [of w'] show ?thesis by simp
  qed
qed

lemma find_None_all: "List.find P xs = None \<longleftrightarrow> (\<forall>x\<in>set xs. \<not> P x)"
  by (induction xs) auto

subsection \<open>path_rule\<close>

text \<open>
  Against C5 as it is stated (all prerequisite targets are executed, and then the call
  fails if one of them is ahead): \<open>file{hello}\<close> has the newer \<open>file{world}\<close> and then
  \<open>file{extra}\<close> as prerequisites. \<open>perform_update\<close> fails at \<open>file{world}\<close> and never
  executes \<open>file{extra}\<close>, whose file an execution would have created.
\<close>

theorem perform_update_all_then_check_counterexample:
  "fst (path_rule_perform_update execute_create perform_update_id 0 hello_world) =
     Inl (No_recipe_prerequisite_ahead 1) \<and>
   files (snd (path_rule_perform_update execute_create perform_update_id 0 hello_world))
     ''d/extra'' = None \<and>
   fst (perform_update_all_then_check execute_create perform_update_id 0 hello_world) =
     Inl (No_recipe_prerequisite_ahead 1) \<and>
   files (snd (perform_update_all_then_check execute_create perform_update_id 0 hello_world))
     ''d/extra'' = Some 9"
  by (simp add: path_rule_perform_update_def perform_update_all_then_check_def hello_world_def
      execute_create_def mtime_def final_world_def)

text \<open>
  C5, as amended. \<open>path_rule::perform_update\<close> executes the resolved prerequisite
  targets in order and checks each one right after its execution. At the first
  prerequisite whose execution fails, or that is mtime-based with a modification time
  strictly greater than that of the target (read before the loop), or that is not
  mtime-based and ended in the state \<open>changed\<close>, the call fails at once, in the world
  which that execution left: the later prerequisites are not executed. If there is no
  such prerequisite, every prerequisite target has been executed and the call returns
  \<open>unchanged\<close>; in that case it does what the reading of the specification does.
\<close>

theorem perform_update_first_ahead:
  "path_rule_perform_update execute a t w =
     (if cls (targets w t) \<noteq> path_target_c then (Inl Bad_cast, w)
      else
        (let mt = mtime w (targets w t);
             tr = execute_trace execute a (prerequisite_targets (targets w t)) w in
         case List.find (\<lambda>s. ahead mt s \<noteq> None) tr of
           None \<Rightarrow> (Inr Unchanged, final_world w tr)
         | Some s \<Rightarrow> (Inl (the (ahead mt s)), snd (snd s)))) \<and>
   (\<forall>st. fst (path_rule_perform_update execute a t w) = Inr st \<longrightarrow>
      st = Unchanged \<and>
      map fst (execute_trace execute a (prerequisite_targets (targets w t)) w) =
        prerequisite_targets (targets w t) \<and>
      path_rule_perform_update execute a t w = perform_update_all_then_check execute a t w)"
proof -
  let ?mt = "mtime w (targets w t)"
  let ?tr = "execute_trace execute a (prerequisite_targets (targets w t)) w"
  have eq: "path_rule_perform_update execute a t w =
     (if cls (targets w t) \<noteq> path_target_c then (Inl Bad_cast, w)
      else
        (case List.find (\<lambda>s. ahead ?mt s \<noteq> None) ?tr of
           None \<Rightarrow> (Inr Unchanged, final_world w ?tr)
         | Some s \<Rightarrow> (Inl (the (ahead ?mt s)), snd (snd s))))"
    by (simp add: path_rule_perform_update_def perform_update_loop_trace)
  have "st = Unchanged \<and> map fst ?tr = prerequisite_targets (targets w t) \<and>
        path_rule_perform_update execute a t w = perform_update_all_then_check execute a t w"
    if ok: "fst (path_rule_perform_update execute a t w) = Inr st" for st
  proof -
    from ok have cls: "cls (targets w t) = path_target_c"
      and none: "List.find (\<lambda>s. ahead ?mt s \<noteq> None) ?tr = None"
      unfolding eq by (auto split: if_splits option.splits)
    from none have "\<forall>s\<in>set ?tr. ahead ?mt s = None"
      by (simp add: find_None_all)
    then have "map fst ?tr = prerequisite_targets (targets w t)"
      by (rule execute_trace_all)
    moreover from ok cls none have "st = Unchanged"
      unfolding eq by simp
    moreover from cls none
    have "path_rule_perform_update execute a t w = perform_update_all_then_check execute a t w"
      unfolding eq by (simp add: perform_update_all_then_check_def)
    ultimately show ?thesis by simp
  qed
  with eq show ?thesis by (simp add: Let_def)
qed

text \<open>
  \<open>file{hello}\<close> fails on its newer prerequisite \<open>file{world}\<close>. When \<open>file{hello}\<close>
  is newer than both prerequisites, both are executed (the file of \<open>file{extra}\<close> is
  there afterwards) and the state is \<open>unchanged\<close>.
\<close>

theorem perform_update_first_ahead_witness:
  "path_rule_perform_update execute_create perform_update_id 0 hello_world =
     (Inl (No_recipe_prerequisite_ahead 1), hello_world) \<and>
   fst (path_rule_perform_update execute_create perform_update_id 0
          (hello_world\<lparr>files := [''d/hello'' \<mapsto> 10, ''d/world'' \<mapsto> 2]\<rparr>)) = Inr Unchanged \<and>
   files (snd (path_rule_perform_update execute_create perform_update_id 0
          (hello_world\<lparr>files := [''d/hello'' \<mapsto> 10, ''d/world'' \<mapsto> 2]\<rparr>))) ''d/extra'' = Some 9"
proof -
  let ?w = "hello_world\<lparr>files := [''d/hello'' \<mapsto> 10, ''d/world'' \<mapsto> 2]\<rparr>"
  let ?w' = "?w\<lparr>files := (files ?w)(''d/extra'' \<mapsto> 9)\<rparr>"
  have tr: "execute_trace execute_create perform_update_id [1, 2] hello_world =
          [(1, Inr Unchanged, hello_world),
           (2, Inr Changed, hello_world\<lparr>files := (files hello_world)(''d/extra'' \<mapsto> 9)\<rparr>)]"
    "execute_trace execute_create perform_update_id [1, 2] ?w =
          [(1, Inr Unchanged, ?w), (2, Inr Changed, ?w')]"
    by (simp_all add: execute_create_def hello_world_def)
  have facts: "prerequisite_targets (targets hello_world 0) = [1, 2]"
    "prerequisite_targets (targets ?w 0) = [1, 2]"
    "cls (targets hello_world 0) = path_target_c"
    "cls (targets ?w 0) = path_target_c"
    "mtime hello_world (targets hello_world 0) = Time 1"
    "mtime ?w (targets ?w 0) = Time 10"
    "ahead (Time 1) (1, Inr Unchanged, hello_world) = Some (No_recipe_prerequisite_ahead 1)"
    "ahead (Time 10) (1, Inr Unchanged, ?w) = None"
    "ahead (Time 10) (2, Inr Changed, ?w') = None"
    by (simp_all add: hello_world_def mtime_def)
  have "path_rule_perform_update execute_create perform_update_id 0 hello_world =
     (Inl (No_recipe_prerequisite_ahead 1), hello_world)"
    using perform_update_first_ahead [of execute_create perform_update_id 0 hello_world]
      tr facts
    by simp
  moreover have "path_rule_perform_update execute_create perform_update_id 0 ?w =
     (Inr Unchanged, ?w')"
    using perform_update_first_ahead [of execute_create perform_update_id 0 ?w]
      tr facts
    by (simp add: final_world_def)
  ultimately show ?thesis by simp
qed

text \<open>
  Against C6 as it is stated (the default recipe for the actions other than update and
  clean): for the action perform(default) and \<open>file{world}\<close>, which has no
  prerequisites, \<open>path_rule::apply\<close> returns the noop recipe.
\<close>

theorem path_rule_apply_default_counterexample:
  "path_rule_apply (\<lambda>a t w. (Inr (), w)) \<lparr>meta_operation = perform_id, operation = default_id\<rparr>
      1 hello_world = (Inr noop_recipe, hello_world) \<and>
   operation \<lparr>meta_operation = perform_id, operation = default_id\<rparr> \<noteq> clean_id \<and>
   operation \<lparr>meta_operation = perform_id, operation = default_id\<rparr> \<noteq> update_id \<and>
   noop_recipe \<noteq> default_recipe"
  by (simp add: path_rule_apply_def hello_world_def has_prerequisites_def clean_id_def
      default_id_def update_id_def perform_update_id_def perform_id_def noop_recipe_def
      default_recipe_def)

text \<open>
  C6, as amended. \<open>path_rule::match\<close> claims the target for every action other than
  \<open>perform_update\<close>; for \<open>perform_update\<close> and a path target it claims the target
  exactly when the file at the target's path exists, the path being the assigned one,
  or the derived one (which it stores in the target) when none is assigned yet.
  \<open>path_rule::apply\<close> returns the noop recipe when the operation is clean; otherwise,
  once the prerequisites are searched and matched, it returns \<open>perform_update\<close> for the
  action \<open>perform_update\<close>, and for every other action the default recipe when the
  target has prerequisites and the noop recipe when it has none.
\<close>

theorem path_rule_match_apply:
  "(a \<noteq> perform_update_id \<longrightarrow> path_rule_match derive_path a t w = (Inr (Some t), w)) \<and>
   (a = perform_update_id \<and> cls (targets w t) = path_target_c \<and> path (targets w t) \<noteq> [] \<longrightarrow>
      path_rule_match derive_path a t w =
        (Inr (if file_exists w (path (targets w t)) then Some t else None), w)) \<and>
   (\<forall>pt'. a = perform_update_id \<and> cls (targets w t) = path_target_c \<and>
      path (targets w t) = [] \<and> derive_path (targets w t) = Inr pt' \<longrightarrow>
      path_rule_match derive_path a t w =
        (Inr (if file_exists w (path pt') then Some t else None),
         w\<lparr>targets := (targets w)(t := pt')\<rparr>)) \<and>
   (operation a = clean_id \<longrightarrow>
      path_rule_apply search_and_match a t w = (Inr noop_recipe, w)) \<and>
   (\<forall>w'. operation a \<noteq> clean_id \<and> search_and_match a t w = (Inr (), w') \<longrightarrow>
      path_rule_apply search_and_match a t w =
        (Inr (if a = perform_update_id then Function_pointer path_rule_perform_update_fn
              else if has_prerequisites (targets w' t) then default_recipe
              else noop_recipe), w'))"
  by (simp add: path_rule_match_def path_rule_apply_def mtime_def file_exists_def Let_def
      split: option.splits)

text \<open>
  \<open>file{hello}\<close> exists and is claimed for \<open>perform_update\<close>, \<open>file{extra}\<close> does not
  and is not, but is claimed for \<open>perform_clean\<close>; the recipes for clean and for
  perform(default), with and without prerequisites.
\<close>

theorem path_rule_match_apply_witness:
  "path_rule_match Inr perform_update_id 0 hello_world = (Inr (Some 0), hello_world) \<and>
   path_rule_match Inr perform_update_id 2 hello_world = (Inr None, hello_world) \<and>
   path_rule_match Inr perform_clean_id 2 hello_world = (Inr (Some 2), hello_world) \<and>
   path_rule_apply (\<lambda>a t w. (Inr (), w)) perform_clean_id 0 hello_world =
     (Inr noop_recipe, hello_world) \<and>
   path_rule_apply (\<lambda>a t w. (Inr (), w)) \<lparr>meta_operation = perform_id, operation = default_id\<rparr>
     0 hello_world = (Inr default_recipe, hello_world) \<and>
   path_rule_apply (\<lambda>a t w. (Inr (), w)) \<lparr>meta_operation = perform_id, operation = default_id\<rparr>
     2 hello_world = (Inr noop_recipe, hello_world)"
proof -
  let ?sm = "\<lambda>(a::action) (t::tid) (w::world). (Inr () :: error + unit, w)"
  let ?d = "\<lparr>meta_operation = perform_id, operation = default_id\<rparr>"
  have facts: "cls (targets hello_world 0) = path_target_c"
    "cls (targets hello_world 2) = path_target_c"
    "path (targets hello_world 0) = ''d/hello''" "path (targets hello_world 2) = ''d/extra''"
    "file_exists hello_world ''d/hello''" "\<not> file_exists hello_world ''d/extra''"
    "has_prerequisites (targets hello_world 0)" "\<not> has_prerequisites (targets hello_world 2)"
    by (simp_all add: hello_world_def file_exists_def has_prerequisites_def)
  have ids: "perform_clean_id \<noteq> perform_update_id" "operation perform_clean_id = clean_id"
    "default_id \<noteq> clean_id" "?d \<noteq> perform_update_id"
    by (simp_all add: perform_clean_id_def perform_update_id_def clean_id_def update_id_def
        default_id_def)
  show ?thesis
    using path_rule_match_apply [of perform_update_id Inr 0 hello_world ?sm]
      path_rule_match_apply [of perform_update_id Inr 2 hello_world ?sm]
      path_rule_match_apply [of perform_clean_id Inr 2 hello_world ?sm]
      path_rule_match_apply [of perform_clean_id Inr 0 hello_world ?sm]
      path_rule_match_apply [of ?d Inr 0 hello_world ?sm]
      path_rule_match_apply [of ?d Inr 2 hello_world ?sm]
    by (simp add: facts ids)
qed

subsection \<open>fsdir_rule\<close>

text \<open>
  C7. \<open>fsdir_rule::perform_clean\<close> removes the directory first: if \<open>rmdir\<close> fails, so
  does the call, in the world \<open>rmdir\<close> left. Otherwise the prerequisites, if there are
  any, are executed in the world that \<open>rmdir\<close> left (if that fails, the call fails), and
  the call returns \<open>changed\<close> when the directory was removed, \<open>postponed\<close> when it was
  not empty, and otherwise the state that cleaning the prerequisites produced
  (\<open>unchanged\<close> for a target without prerequisites). \<open>perform_update\<close> has the
  opposite order: the prerequisites are executed first, and the directory is looked for
  and created in the world they left.
\<close>

theorem fsdir_rule_clean_order:
  "(\<forall>e w1. rmdir (tdir (targets w t)) w = (Inl e, w1) \<longrightarrow>
      fsdir_rule_perform_clean rmdir reverse_execute_prerequisites a t w = (Inl e, w1)) \<and>
   (\<forall>rs w1 ts w2. rmdir (tdir (targets w t)) w = (Inr rs, w1) \<and>
      has_prerequisites (targets w1 t) \<and>
      reverse_execute_prerequisites a t w1 = (Inr ts, w2) \<longrightarrow>
      fsdir_rule_perform_clean rmdir reverse_execute_prerequisites a t w =
        (Inr (case rs of rmdir_success \<Rightarrow> Changed | rmdir_not_empty \<Rightarrow> Postponed
              | rmdir_not_exist \<Rightarrow> ts), w2)) \<and>
   (\<forall>rs w1 e w2. rmdir (tdir (targets w t)) w = (Inr rs, w1) \<and>
      has_prerequisites (targets w1 t) \<and>
      reverse_execute_prerequisites a t w1 = (Inl e, w2) \<longrightarrow>
      fsdir_rule_perform_clean rmdir reverse_execute_prerequisites a t w = (Inl e, w2)) \<and>
   (\<forall>rs w1. rmdir (tdir (targets w t)) w = (Inr rs, w1) \<and>
      \<not> has_prerequisites (targets w1 t) \<longrightarrow>
      fsdir_rule_perform_clean rmdir reverse_execute_prerequisites a t w =
        (Inr (case rs of rmdir_success \<Rightarrow> Changed | rmdir_not_empty \<Rightarrow> Postponed
              | rmdir_not_exist \<Rightarrow> Unchanged), w1)) \<and>
   (\<forall>ts w1. has_prerequisites (targets w t) \<and> execute_prerequisites a t w = (Inr ts, w1) \<longrightarrow>
      fsdir_rule_perform_update execute_prerequisites dir_exists try_mkdir a t w =
        (if dir_exists w1 (tdir (targets w1 t)) then (Inr ts, w1)
         else case try_mkdir (tdir (targets w1 t)) w1 of
                (True, w2) \<Rightarrow> (Inr Changed, w2)
              | (False, w2) \<Rightarrow> (Inl (Unable_to_create_directory (tdir (targets w1 t))), w2)))"
  by (auto simp: fsdir_rule_perform_clean_def fsdir_rule_perform_update_def Let_def
      split: rmdir_status.splits prod.splits bool.splits)

text \<open>
  Cleaning \<open>fsdir{a/b/}\<close>: the directory is removed, \<open>changed\<close>, and the parent \<open>a/\<close>,
  which can only go once \<open>a/b/\<close> is gone, is removed too. When \<open>a/b/\<close> does not exist the
  state is that of the prerequisites, and when \<open>rmdir\<close> reports a directory that is not
  empty it is \<open>postponed\<close>.
\<close>

theorem fsdir_rule_clean_order_witness:
  "fst (fsdir_rule_perform_clean rmdir_entry clean_parent perform_clean_id 0 dirs_world) =
     Inr Changed \<and>
   files (snd (fsdir_rule_perform_clean rmdir_entry clean_parent perform_clean_id 0 dirs_world))
     ''a/'' = None \<and>
   fst (fsdir_rule_perform_clean rmdir_entry clean_parent perform_clean_id 0
         (dirs_world\<lparr>files := [''a/'' \<mapsto> 1]\<rparr>)) = Inr Changed \<and>
   fst (fsdir_rule_perform_clean (\<lambda>d w. (Inr rmdir_not_empty, w)) clean_parent perform_clean_id 0
         dirs_world) = Inr Postponed"
proof -
  let ?w1 = "dirs_world\<lparr>files := (files dirs_world)(''a/b/'' := None)\<rparr>"
  let ?w2 = "?w1\<lparr>files := (files ?w1)(''a/'' := None)\<rparr>"
  let ?v = "dirs_world\<lparr>files := [''a/'' \<mapsto> 1]\<rparr>"
  let ?v2 = "?v\<lparr>files := (files ?v)(''a/'' := None)\<rparr>"
  have a: "rmdir_entry (tdir (targets dirs_world 0)) dirs_world = (Inr rmdir_success, ?w1) \<and>
        has_prerequisites (targets ?w1 0) \<and>
        clean_parent perform_clean_id 0 ?w1 = (Inr Changed, ?w2)"
    by (simp add: rmdir_entry_def clean_parent_def dirs_world_def has_prerequisites_def)
  have b: "rmdir_entry (tdir (targets ?v 0)) ?v = (Inr rmdir_not_exist, ?v) \<and>
        has_prerequisites (targets ?v 0) \<and>
        clean_parent perform_clean_id 0 ?v = (Inr Changed, ?v2)"
    by (simp add: rmdir_entry_def clean_parent_def dirs_world_def has_prerequisites_def)
  have c: "(\<lambda>d w. (Inr rmdir_not_empty, w)) (tdir (targets dirs_world 0)) dirs_world =
          (Inr rmdir_not_empty :: error + rmdir_status, dirs_world) \<and>
        has_prerequisites (targets dirs_world 0) \<and>
        clean_parent perform_clean_id 0 dirs_world = (Inr Postponed, dirs_world)"
    by (simp add: clean_parent_def dirs_world_def has_prerequisites_def)
  from fsdir_rule_clean_order [of rmdir_entry dirs_world 0 clean_parent perform_clean_id] a
  have "fsdir_rule_perform_clean rmdir_entry clean_parent perform_clean_id 0 dirs_world =
          (Inr Changed, ?w2)"
    by (metis (no_types, lifting) rmdir_status.simps(7))
  moreover
  from fsdir_rule_clean_order [of rmdir_entry ?v 0 clean_parent perform_clean_id] b
  have "fsdir_rule_perform_clean rmdir_entry clean_parent perform_clean_id 0 ?v =
          (Inr Changed, ?v2)"
    by (metis (no_types, lifting) rmdir_status.simps(8))
  moreover
  from fsdir_rule_clean_order [of "\<lambda>d w. (Inr rmdir_not_empty, w)" dirs_world 0 clean_parent
      perform_clean_id] c
  have "fsdir_rule_perform_clean (\<lambda>d w. (Inr rmdir_not_empty, w)) clean_parent perform_clean_id
          0 dirs_world = (Inr Postponed, dirs_world)"
    by (metis (no_types, lifting) rmdir_status.simps(9))
  ultimately show ?thesis by simp
qed

subsection \<open>create_root\<close>


lemma and_then_simps [simp]:
  "and_then (Inl e) f = Inl e" "and_then (Inr x) f = f x"
  by (simp_all add: and_then_def)

lemma enter_operations_ok:
  "meta_operations rs = [] \<longrightarrow> operations rs = [] \<Longrightarrow>
     \<exists>rs1. enter_operations rs = Inr rs1 \<and> vars rs1 = vars rs"
  by (auto simp: enter_operations_def table_insert_def perform_id_def default_id_def
      update_id_def clean_id_def)

lemma scopes_insert_at:
  "scopes (scopes_insert k st) k =
     Some ((case scopes st k of None \<Rightarrow> empty_scope | Some s \<Rightarrow> s)\<lparr>root := True\<rparr>)"
  by (simp add: scopes_insert_def)

text \<open>
  C8. Let the operation tables of the scope be seeded together (none, or both). A call
  \<open>create_root (out_root, src_root)\<close> on a scope whose variable \<open>out_root\<close> has a
  value that reads as a path other than the argument fails with the \<open>out_root\<close>
  mismatch; with a non-empty argument \<open>src_root\<close> and a consistent \<open>out_root\<close>, a
  variable \<open>src_root\<close> whose value reads as another path fails with the \<open>src_root\<close>
  mismatch (re-bootstrapping a root with a different \<open>src_root\<close> fails). When each of
  the two variables has no value or reads as the argument, the call succeeds; afterwards
  \<open>out_root\<close> holds the value it had or else the argument, and \<open>src_root\<close> likewise
  when the argument is not empty.
\<close>

theorem create_root_mismatch:
  assumes tables: "meta_operations (case scopes st out_root of None \<Rightarrow> empty_scope | Some s \<Rightarrow> s) = []
      \<longrightarrow> operations (case scopes st out_root of None \<Rightarrow> empty_scope | Some s \<Rightarrow> s) = []"
  shows
   "(\<forall>p. defined_value (scope_var st out_root ''out_root'') \<and>
       as_dir_path env (value_of (scope_var st out_root ''out_root'')) = Inr p \<and> p \<noteq> out_root \<longrightarrow>
       create_root env out_root src_root st = Inl (New_out_root_mismatch out_root p)) \<and>
    (\<forall>p. src_root \<noteq> [] \<and>
       (defined_value (scope_var st out_root ''out_root'') \<longrightarrow>
          as_dir_path env (value_of (scope_var st out_root ''out_root'')) = Inr out_root) \<and>
       defined_value (scope_var st out_root ''src_root'') \<and>
       as_dir_path env (value_of (scope_var st out_root ''src_root'')) = Inr p \<and> p \<noteq> src_root \<longrightarrow>
       create_root env out_root src_root st = Inl (New_src_root_mismatch src_root p)) \<and>
    ((defined_value (scope_var st out_root ''out_root'') \<longrightarrow>
        as_dir_path env (value_of (scope_var st out_root ''out_root'')) = Inr out_root) \<and>
     (src_root \<noteq> [] \<and> defined_value (scope_var st out_root ''src_root'') \<longrightarrow>
        as_dir_path env (value_of (scope_var st out_root ''src_root'')) = Inr src_root) \<longrightarrow>
       (\<exists>st'. create_root env out_root src_root st = Inr st' \<and>
          scope_var st' out_root ''out_root'' =
            (if defined_value (scope_var st out_root ''out_root'')
             then scope_var st out_root ''out_root'' else Some (Dir_path_value out_root)) \<and>
          scope_var st' out_root ''src_root'' =
            (if src_root \<noteq> [] \<and> \<not> defined_value (scope_var st out_root ''src_root'')
             then Some (Dir_path_value src_root) else scope_var st out_root ''src_root'')))"
proof -
  let ?rs = "(case scopes st out_root of None \<Rightarrow> empty_scope | Some s \<Rightarrow> s)\<lparr>root := True\<rparr>"
  have v: "scope_var st out_root x = vars ?rs x" for x
    by (simp add: scope_var_def empty_scope_def split: option.splits)
  from tables have "meta_operations ?rs = [] \<longrightarrow> operations ?rs = []" by simp
  from enter_operations_ok [OF this]
  obtain rs1 where rs1: "enter_operations ?rs = Inr rs1" "vars rs1 = vars ?rs" by blast
  have cr: "create_root env out_root src_root st =
      and_then (assign_root_var env ''out_root'' out_root New_out_root_mismatch rs1) (\<lambda>rs2.
      and_then (if src_root \<noteq> []
                then assign_root_var env ''src_root'' src_root New_src_root_mismatch rs2
                else Inr rs2) (\<lambda>rs3.
      Inr ((scopes_insert out_root st)\<lparr>scopes := (scopes (scopes_insert out_root st))(out_root \<mapsto> rs3)\<rparr>)))"
    by (simp add: create_root_def scopes_insert_at rs1 Let_def)
  show ?thesis
    unfolding cr v
    by (auto simp: assign_root_var_def rs1 defined_value_def scope_var_def value_of_def)
qed

text \<open>
  On the root scope \<open>/a/\<close> (with \<open>src_root = /a/\<close>): the \<open>src_root\<close> \<open>/x/\<close> is a
  mismatch, an empty \<open>src_root\<close> is not, \<open>/a/\<close> is accepted; a new root \<open>/b/\<close> gets
  both variables.
\<close>

theorem create_root_mismatch_witness:
  "create_root sample_env ''/a/'' ''/x/'' sample_state = Inl (New_src_root_mismatch ''/x/'' ''/a/'') \<and>
   create_root sample_env ''/a/'' [] sample_state \<noteq> Inl (New_src_root_mismatch [] ''/a/'') \<and>
   (\<exists>st'. create_root sample_env ''/a/'' ''/a/'' sample_state = Inr st' \<and>
      scope_var st' ''/a/'' ''src_root'' = Some (Dir_path_value ''/a/'')) \<and>
   (\<exists>st'. create_root sample_env ''/b/'' ''/b/'' sample_state = Inr st' \<and>
      scope_var st' ''/b/'' ''out_root'' = Some (Dir_path_value ''/b/'') \<and>
      scope_var st' ''/b/'' ''src_root'' = Some (Dir_path_value ''/b/''))"
proof -
  have a: "scope_var sample_state ''/a/'' ''out_root'' = Some (Dir_path_value ''/a/'')"
    "scope_var sample_state ''/a/'' ''src_root'' = Some (Dir_path_value ''/a/'')"
    "scope_var sample_state ''/b/'' x = None"
    "as_dir_path sample_env (Dir_path_value p) = Inr p"
    "meta_operations (case scopes sample_state ''/a/'' of None \<Rightarrow> empty_scope | Some s \<Rightarrow> s) = []
       \<longrightarrow> operations (case scopes sample_state ''/a/'' of None \<Rightarrow> empty_scope | Some s \<Rightarrow> s) = []"
    "meta_operations (case scopes sample_state ''/b/'' of None \<Rightarrow> empty_scope | Some s \<Rightarrow> s) = []
       \<longrightarrow> operations (case scopes sample_state ''/b/'' of None \<Rightarrow> empty_scope | Some s \<Rightarrow> s) = []"
    for x p
    by (simp_all add: scope_var_def sample_state_def sample_env_def empty_scope_def)
  have "create_root sample_env ''/a/'' ''/x/'' sample_state =
          Inl (New_src_root_mismatch ''/x/'' ''/a/'')"
    using create_root_mismatch [OF a(5), of sample_env "''/x/''"]
    by (simp add: a defined_value_def value_of_def)
  moreover have "\<exists>st'. create_root sample_env ''/a/'' ''/a/'' sample_state = Inr st' \<and>
      scope_var st' ''/a/'' ''src_root'' = Some (Dir_path_value ''/a/'')"
    using create_root_mismatch [OF a(5), of sample_env "''/a/''"]
    by (auto simp add: a defined_value_def value_of_def)
  moreover have "\<exists>st'. create_root sample_env ''/b/'' ''/b/'' sample_state = Inr st' \<and>
      scope_var st' ''/b/'' ''out_root'' = Some (Dir_path_value ''/b/'') \<and>
      scope_var st' ''/b/'' ''src_root'' = Some (Dir_path_value ''/b/'')"
    using create_root_mismatch [OF a(6), of sample_env "''/b/''"]
    by (auto simp add: a defined_value_def value_of_def)
  moreover have "create_root sample_env ''/a/'' [] sample_state \<noteq>
      Inl (New_src_root_mismatch [] ''/a/'')"
    using create_root_mismatch [OF a(5), of sample_env "[]"]
    by (auto simp add: a defined_value_def value_of_def)
  ultimately show ?thesis by blast
qed

subsection \<open>import\<close>

















subsection \<open>Cleanup on leaving a scope\<close>

lemma remdups_snoc: "remdups (ys @ [p]) = remdups [y \<leftarrow> ys. y \<noteq> p] @ [p]"
  by (induction ys) auto

lemma remove_in_order_Cons:
  "remove_in_order rmdir rmfile (p # ps) w =
     (case remove_path rmdir rmfile p w of
        (Inl e, w') \<Rightarrow> (Inl e, w')
      | (Inr u, w') \<Rightarrow> remove_in_order rmdir rmfile ps w')"
  by (simp add: remove_path_def
      split: prod.splits sum.splits rmdir_status.splits rmfile_status.splits)

lemma leave_loop_remove_in_order:
  "leave_loop rmdir rmfile ps rp w =
     remove_in_order rmdir rmfile (rev (remdups (rev [p \<leftarrow> ps. p \<notin> rp]))) w"
proof (induction ps arbitrary: rp w)
  case Nil
  show ?case by simp
next
  case (Cons p ps)
  show ?case
  proof (cases "p \<in> rp")
    case True
    then show ?thesis by (simp add: Cons.IH)
  next
    case False
    have "[q \<leftarrow> ps. q \<notin> rp \<and> q \<noteq> p] = [q \<leftarrow> ps. q \<noteq> p \<and> q \<notin> rp]"
      by (rule filter_cong) auto
    then have "rev (remdups (rev [q \<leftarrow> p # ps. q \<notin> rp])) =
          p # rev (remdups (rev [q \<leftarrow> ps. q \<notin> insert p rp]))"
      using False by (simp add: remdups_snoc rev_filter [symmetric])
    then show ?thesis
      using False
      by (simp add: remove_in_order_Cons Cons.IH del: remove_in_order.simps
          split: prod.splits sum.splits)
  qed
qed

lemma remove_in_order_append:
  "remove_in_order rmdir rmfile qs w = (Inr (), w1) \<Longrightarrow>
     remove_in_order rmdir rmfile (qs @ ps) w = remove_in_order rmdir rmfile ps w1"
proof (induction qs arbitrary: w)
  case Nil
  then show ?case by simp
next
  case (Cons q qs)
  from Cons.prems obtain w' where
    "remove_path rmdir rmfile q w = (Inr (), w')" "remove_in_order rmdir rmfile qs w' = (Inr (), w1)"
    by (auto simp add: remove_in_order_Cons simp del: remove_in_order.simps
        split: prod.splits sum.splits)
  then show ?case
    by (simp add: remove_in_order_Cons Cons.IH del: remove_in_order.simps)
qed

text \<open>
  C9. \<open>leave\<close> does what taking the paths \<open>rev (remdups (cleanups sp))\<close> one after
  the other does: these are the registered paths in the reverse of the order of
  registration, each path once, at its first occurrence in that reverse order (the last
  registration of the path). For each of these paths \<open>p\<close>, reached in the world \<open>w1\<close>
  that the removal of the paths before it has left: when \<open>p\<close> is a directory path that
  \<open>rmdir\<close> reports not empty, the call fails there with "directory is not empty";
  when \<open>rmdir\<close> reports it missing, the call fails with "directory does not exist";
  when \<open>p\<close> is a file path that \<open>rmfile\<close> reports missing, the call fails with "file
  does not exist"; and when the call succeeds, \<open>rmdir\<close> has reported success for \<open>p\<close>
  (the directory was there and empty), or \<open>rmfile\<close> has (the file was there).
\<close>

theorem leave_reverse_unique:
  "leave rmdir rmfile sp w = remove_in_order rmdir rmfile (rev (remdups (cleanups sp))) w \<and>
   distinct (rev (remdups (cleanups sp))) \<and>
   set (rev (remdups (cleanups sp))) = set (cleanups sp) \<and>
   (\<forall>qs p ps w1 w2.
      rev (remdups (cleanups sp)) = qs @ p # ps \<and>
      remove_in_order rmdir rmfile qs w = (Inr (), w1) \<longrightarrow>
        (to_directory p \<and> rmdir p w1 = (Inr rmdir_not_empty, w2) \<longrightarrow>
           leave rmdir rmfile sp w = (Inl (Cleanup_directory_not_empty p), w2)) \<and>
        (to_directory p \<and> rmdir p w1 = (Inr rmdir_not_exist, w2) \<longrightarrow>
           leave rmdir rmfile sp w = (Inl (Cleanup_directory_not_exist p), w2)) \<and>
        (\<not> to_directory p \<and> rmfile p w1 = (Inr rmfile_not_exist, w2) \<longrightarrow>
           leave rmdir rmfile sp w = (Inl (Cleanup_file_not_exist p), w2)) \<and>
        (fst (leave rmdir rmfile sp w) = Inr () \<longrightarrow>
           (if to_directory p then fst (rmdir p w1) = Inr rmdir_success
            else fst (rmfile p w1) = Inr rmfile_success)))"
proof -
  have eq: "leave rmdir rmfile sp w =
      remove_in_order rmdir rmfile (rev (remdups (cleanups sp))) w"
    by (simp add: leave_def leave_loop_remove_in_order)
  have "leave rmdir rmfile sp w = remove_in_order rmdir rmfile (p # ps) w1"
    if "rev (remdups (cleanups sp)) = qs @ p # ps"
      and "remove_in_order rmdir rmfile qs w = (Inr (), w1)" for qs p ps w1
    using that remove_in_order_append [of rmdir rmfile qs w w1 "p # ps"] by (simp add: eq)
  then have rest: "\<forall>qs p ps w1 w2.
      rev (remdups (cleanups sp)) = qs @ p # ps \<and>
      remove_in_order rmdir rmfile qs w = (Inr (), w1) \<longrightarrow>
        (to_directory p \<and> rmdir p w1 = (Inr rmdir_not_empty, w2) \<longrightarrow>
           leave rmdir rmfile sp w = (Inl (Cleanup_directory_not_empty p), w2)) \<and>
        (to_directory p \<and> rmdir p w1 = (Inr rmdir_not_exist, w2) \<longrightarrow>
           leave rmdir rmfile sp w = (Inl (Cleanup_directory_not_exist p), w2)) \<and>
        (\<not> to_directory p \<and> rmfile p w1 = (Inr rmfile_not_exist, w2) \<longrightarrow>
           leave rmdir rmfile sp w = (Inl (Cleanup_file_not_exist p), w2)) \<and>
        (fst (leave rmdir rmfile sp w) = Inr () \<longrightarrow>
           (if to_directory p then fst (rmdir p w1) = Inr rmdir_success
            else fst (rmfile p w1) = Inr rmfile_success))"
    by (auto split: prod.splits sum.splits rmdir_status.splits rmfile_status.splits)
  have "distinct (rev (remdups (cleanups sp)))"
    and "set (rev (remdups (cleanups sp))) = set (cleanups sp)"
    by simp_all
  with eq rest show ?thesis by (intro conjI) assumption+
qed

text \<open>
  With \<open>/t/\<close>, \<open>/t/out\<close>, \<open>/t/d/\<close> and again \<open>/t/out\<close> registered: the file, the
  directory \<open>/t/d/\<close> and then \<open>/t/\<close> are removed. With a file left in \<open>/t/d/\<close> the call
  fails on that directory, after the file \<open>/t/out\<close> is removed; without the directory
  \<open>/t/d/\<close> it fails there too, as the directory does not exist; without the file
  \<open>/t/out\<close> it fails at once.
\<close>

theorem leave_reverse_unique_witness:
  "leave rmdir_paths rmfile_paths
     \<lparr>wd_path = ''/t/'', cleanups = [''/t/'', ''/t/out'', ''/t/d/'', ''/t/out'']\<rparr>
     [''/t/'', ''/t/out'', ''/t/d/''] = (Inr (), []) \<and>
   leave rmdir_paths rmfile_paths
     \<lparr>wd_path = ''/t/'', cleanups = [''/t/'', ''/t/out'', ''/t/d/'', ''/t/out'']\<rparr>
     [''/t/'', ''/t/out'', ''/t/d/'', ''/t/d/x''] =
     (Inl (Cleanup_directory_not_empty ''/t/d/''), [''/t/'', ''/t/d/'', ''/t/d/x'']) \<and>
   leave rmdir_paths rmfile_paths
     \<lparr>wd_path = ''/t/'', cleanups = [''/t/'', ''/t/out'', ''/t/d/'', ''/t/out'']\<rparr>
     [''/t/'', ''/t/out''] =
     (Inl (Cleanup_directory_not_exist ''/t/d/''), [''/t/'']) \<and>
   leave rmdir_paths rmfile_paths
     \<lparr>wd_path = ''/t/'', cleanups = [''/t/'', ''/t/out'', ''/t/d/'', ''/t/out'']\<rparr>
     [''/t/'', ''/t/d/''] = (Inl (Cleanup_file_not_exist ''/t/out''), [''/t/'', ''/t/d/''])"
proof -
  let ?sp = "\<lparr>wd_path = ''/t/'', cleanups = [''/t/'', ''/t/out'', ''/t/d/'', ''/t/out'']\<rparr>"
  have order: "rev (remdups (cleanups ?sp)) = [''/t/out'', ''/t/d/'', ''/t/'']"
    by simp
  have "leave rmdir_paths rmfile_paths ?sp [''/t/'', ''/t/out'', ''/t/d/''] = (Inr (), [])"
    using leave_reverse_unique [of rmdir_paths rmfile_paths ?sp "[''/t/'', ''/t/out'', ''/t/d/'']"]
    unfolding order by (simp add: to_directory_def rmdir_paths_def rmfile_paths_def)
  moreover
  have "leave rmdir_paths rmfile_paths ?sp [''/t/'', ''/t/out'', ''/t/d/'', ''/t/d/x''] =
          (Inl (Cleanup_directory_not_empty ''/t/d/''), [''/t/'', ''/t/d/'', ''/t/d/x''])"
    using leave_reverse_unique [of rmdir_paths rmfile_paths ?sp
        "[''/t/'', ''/t/out'', ''/t/d/'', ''/t/d/x'']",
        THEN conjunct2, THEN conjunct2, THEN conjunct2, rule_format,
        of "[''/t/out'']" "''/t/d/''" "[''/t/'']" "[''/t/'', ''/t/d/'', ''/t/d/x'']"
           "[''/t/'', ''/t/d/'', ''/t/d/x'']"]
    by (simp add: to_directory_def rmdir_paths_def rmfile_paths_def)
  moreover
  have "leave rmdir_paths rmfile_paths ?sp [''/t/'', ''/t/out''] =
          (Inl (Cleanup_directory_not_exist ''/t/d/''), [''/t/''])"
    using leave_reverse_unique [of rmdir_paths rmfile_paths ?sp "[''/t/'', ''/t/out'']",
        THEN conjunct2, THEN conjunct2, THEN conjunct2, rule_format,
        of "[''/t/out'']" "''/t/d/''" "[''/t/'']" "[''/t/'']" "[''/t/'']"]
    by (simp add: to_directory_def rmdir_paths_def rmfile_paths_def)
  moreover
  have "leave rmdir_paths rmfile_paths ?sp [''/t/'', ''/t/d/''] =
          (Inl (Cleanup_file_not_exist ''/t/out''), [''/t/'', ''/t/d/''])"
    using leave_reverse_unique [of rmdir_paths rmfile_paths ?sp "[''/t/'', ''/t/d/'']",
        THEN conjunct2, THEN conjunct2, THEN conjunct2, rule_format,
        of "[]" "''/t/out''" "[''/t/d/'', ''/t/'']" "[''/t/'', ''/t/d/'']" "[''/t/'', ''/t/d/'']"]
    by (simp add: to_directory_def rmdir_paths_def rmfile_paths_def)
  ultimately show ?thesis by simp
qed

subsection \<open>The check for no output\<close>

text \<open>
  Against C10 as it is stated (the check succeeds exactly when the file does not exist
  or is zero-length): a file that exists, has no content and cannot be read. The check
  fails with "unable to read" (runner.cxx:34-42).
\<close>

theorem check_output_none_counterexample:
  "check_output (\<lambda>p c fs. Some fs) (\<lambda>fs a b. Diff_equal) ''/t/stdout''
     \<lparr>rd_type = rt_none, rd_str = [], rd_doc = []\<rparr>
     \<lparr>wd_path = ''/t/'', cleanups = [''/t/'', ''/t/stdout'']\<rparr>
     [''/t/stdout'' \<mapsto> File [] False] = Inl (Unable_to_read ''/t/stdout'')"
  by (simp add: check_output_def non_empty_def exists_path_def)

text \<open>
  C10, as amended. For a redirect of type \<open>none\<close> and a non-empty path of the captured
  output, the check succeeds exactly when there is no file at the path or the file can
  be read and is zero-length; it fails with the report of where the output is saved
  exactly when the file can be read and has at least one byte; and it fails with "unable
  to read" exactly when the file is there and cannot be read. Nothing else happens. In
  particular the check passes when the file was never created.
\<close>

theorem check_output_none:
  assumes "rd_type rd = rt_none" and "op \<noteq> []"
  shows "(check_output write_file diff op rd sp fs = Inr (sp, fs) \<longleftrightarrow>
            \<not> exists_path fs op \<or> fs op = Some (File [] True)) \<and>
         (check_output write_file diff op rd sp fs = Inl (Unexpectedly_writes op) \<longleftrightarrow>
            (\<exists>c. c \<noteq> [] \<and> fs op = Some (File c True))) \<and>
         (check_output write_file diff op rd sp fs = Inl (Unable_to_read op) \<longleftrightarrow>
            (\<exists>c. fs op = Some (File c False))) \<and>
         (check_output write_file diff op rd sp fs = Inr (sp, fs) \<or>
          check_output write_file diff op rd sp fs = Inl (Unexpectedly_writes op) \<or>
          check_output write_file diff op rd sp fs = Inl (Unable_to_read op))"
proof (cases "fs op")
  case None
  with assms show ?thesis
    by (simp add: check_output_def non_empty_def exists_path_def)
next
  case (Some e)
  show ?thesis
  proof (cases e)
    case Directory
    with Some assms show ?thesis
      by (simp add: check_output_def non_empty_def exists_path_def)
  next
    case (File c readable)
    with Some assms show ?thesis
      by (cases readable; cases "c = []")
         (simp_all add: check_output_def non_empty_def exists_path_def)
  qed
qed

text \<open>
  No file at \<open>/t/stdout\<close>: the check passes. A file with the content \<open>x\<close>: it fails.
\<close>

theorem check_output_none_witness:
  "check_output (\<lambda>p c fs. Some fs) (\<lambda>fs a b. Diff_equal) ''/t/stdout''
     \<lparr>rd_type = rt_none, rd_str = [], rd_doc = []\<rparr>
     \<lparr>wd_path = ''/t/'', cleanups = [''/t/'']\<rparr> Map.empty =
     Inr (\<lparr>wd_path = ''/t/'', cleanups = [''/t/'']\<rparr>, Map.empty) \<and>
   check_output (\<lambda>p c fs. Some fs) (\<lambda>fs a b. Diff_equal) ''/t/stdout''
     \<lparr>rd_type = rt_none, rd_str = [], rd_doc = []\<rparr>
     \<lparr>wd_path = ''/t/'', cleanups = [''/t/'']\<rparr> [''/t/stdout'' \<mapsto> File ''x'' True] =
     Inl (Unexpectedly_writes ''/t/stdout'')"
proof -
  let ?rd = "\<lparr>rd_type = rt_none, rd_str = [], rd_doc = []\<rparr>"
  have h: "rd_type ?rd = rt_none" "''/t/stdout'' \<noteq> []" by simp_all
  show ?thesis
    using check_output_none [OF h, of "\<lambda>p c fs. Some fs" "\<lambda>fs a b. Diff_equal"
            "\<lparr>wd_path = ''/t/'', cleanups = [''/t/'']\<rparr>" Map.empty]
      check_output_none [OF h, of "\<lambda>p c fs. Some fs" "\<lambda>fs a b. Diff_equal"
            "\<lparr>wd_path = ''/t/'', cleanups = [''/t/'']\<rparr>" "[''/t/stdout'' \<mapsto> File ''x'' True]"]
    by (simp add: exists_path_def)
qed

end
